theory Spec2Isabelle
  imports Main
begin

section \<open>JavaScript strings\<close>

text \<open>
  A JavaScript string is a sequence of UTF-16 code units; a code unit is modelled as a
  natural number.  URLs, which the program only compares with \<open>===\<close> and hands to
  \<open>fetch\<close>, are ordinary HOL strings.
\<close>

type_synonym jsstring = "nat list"

type_synonym url = string

definition js :: "string \<Rightarrow> jsstring" where
  "js s = map of_char s"

text \<open>
  \<open>String.prototype.trim\<close> removes leading and trailing WhiteSpace and LineTerminator
  code points (ECMAScript): TAB, LF, VT, FF, CR, SP, NBSP, U+1680, U+2000..U+200A, U+2028,
  U+2029, U+202F, U+205F, U+3000 and U+FEFF.
\<close>

definition is_ws :: "nat \<Rightarrow> bool" where
  "is_ws c = (c = 9 \<or> c = 10 \<or> c = 11 \<or> c = 12 \<or> c = 13 \<or> c = 32 \<or> c = 160 \<or> c = 5760
     \<or> (8192 \<le> c \<and> c \<le> 8202) \<or> c = 8232 \<or> c = 8233 \<or> c = 8239 \<or> c = 8287
     \<or> c = 12288 \<or> c = 65279)"

definition trim :: "jsstring \<Rightarrow> jsstring" where
  "trim s = rev (dropWhile is_ws (rev (dropWhile is_ws s)))"

text \<open>JavaScript truthiness of a value that is a string, \<open>null\<close> or \<open>undefined\<close>.\<close>

fun truthy :: "'a list option \<Rightarrow> bool" where
  "truthy None = False"
| "truthy (Some s) = (s \<noteq> [])"

section \<open>The regular expression of \<open>getCurrentIP\<close>\<close>

text \<open>
  The fragment of regular expressions that \<open>/^(\d{1,3}\.){3}\d{1,3}$/\<close> uses: the class
  \<open>\d\<close> (the ten ASCII digits), a literal code unit, sequence and the bounded
  repetition \<open>r{m,n}\<close>.  \<open>rests r s\<close> lists what is left of \<open>s\<close> after each way of matching
  \<open>r\<close> at its start, greedy alternatives first, as a backtracking matcher explores them.
\<close>

datatype rx = Digit | Lit nat | Seq rx rx | Rep nat nat rx

definition is_digit :: "nat \<Rightarrow> bool" where
  "is_digit c = (48 \<le> c \<and> c \<le> 57)"

fun rx_weight :: "rx \<Rightarrow> nat" where
  "rx_weight Digit = 1"
| "rx_weight (Lit a) = 1"
| "rx_weight (Seq r1 r2) = 1 + rx_weight r1 + rx_weight r2"
| "rx_weight (Rep m n r) = 1 + n + rx_weight r"

function (sequential) rests :: "rx \<Rightarrow> jsstring \<Rightarrow> jsstring list" where
  "rests Digit [] = []"
| "rests Digit (c # s) = (if is_digit c then [s] else [])"
| "rests (Lit a) [] = []"
| "rests (Lit a) (c # s) = (if c = a then [s] else [])"
| "rests (Seq r1 r2) s = concat (map (rests r2) (rests r1 s))"
| "rests (Rep 0 0 r) s = [s]"
| "rests (Rep (Suc m) 0 r) s = []"
| "rests (Rep 0 (Suc n) r) s = concat (map (rests (Rep 0 n r)) (rests r s)) @ [s]"
| "rests (Rep (Suc m) (Suc n) r) s = concat (map (rests (Rep m n r)) (rests r s))"
  by pat_completeness auto
termination
  by (relation "measure (\<lambda>(r, s). rx_weight r)") auto

text \<open>\<open>^r$\<close>: some way of matching \<open>r\<close> consumes the whole string.\<close>

definition rx_test :: "rx \<Rightarrow> jsstring \<Rightarrow> bool" where
  "rx_test r s = ([] \<in> set (rests r s))"

definition dot :: nat where
  "dot = 46"

definition ipv4Regex :: rx where
  "ipv4Regex = Seq (Rep 3 3 (Seq (Rep 1 3 Digit) (Lit dot))) (Rep 1 3 Digit)"

definition ipv4Regex_test :: "jsstring \<Rightarrow> bool" where
  "ipv4Regex_test s = rx_test ipv4Regex s"

section \<open>IP detection (\<open>utils.js\<close>)\<close>

text \<open>
  What one \<open>fetch\<close> of a detection service yields: the promise rejects (network error,
  invalid URL, abort by the timeout, or \<open>res.text()\<close> rejecting), or it resolves with
  \<open>res.ok\<close> and the body text.  Within one call of \<open>getCurrentIP\<close> every URL is fetched
  at most once (\<open>getCurrentIP_fetches_once\<close> below), so the network of one call is a
  function of the URL.
\<close>

datatype response = FetchRejected | Response bool jsstring

type_synonym network = "url \<Rightarrow> response"

datatype error =
    FetchFailed
  | HttpStatusError
  | InvalidIPv4Format
  | InvalidIPv6Format
  | UnableToDetectIP
  | JsonSyntaxError
  | NullTypeError

text \<open>The \<open>try\<close> block of \<open>getCurrentIP\<close>: the preferred service.\<close>

definition try_primary :: "network \<Rightarrow> url \<Rightarrow> error + jsstring" where
  "try_primary net service =
     (case net service of
        FetchRejected \<Rightarrow> Inl FetchFailed
      | Response ok text \<Rightarrow>
          if \<not> ok then Inl HttpStatusError
          else if \<not> ipv4Regex_test (trim text) then Inl InvalidIPv4Format
          else Inr (trim text))"

definition fallbacks :: "url list" where
  "fallbacks =
     [''https://api.ipify.org'', ''https://ifconfig.me/ip'', ''https://icanhazip.com'',
      ''https://checkip.amazonaws.com'']"

text \<open>
  The \<open>for\<close> loop of the \<open>catch\<close> block, and the \<open>throw\<close> after it.  A run is the list of
  the URLs that \<open>fetch\<close> was called with, in order, and the way the loop ended.
\<close>

fun try_fallbacks_run ::
    "network \<Rightarrow> url \<Rightarrow> url list \<Rightarrow> url list \<times> (error + jsstring)" where
  "try_fallbacks_run net service [] = ([], Inl UnableToDetectIP)"
| "try_fallbacks_run net service (fallback # rest) =
     (if fallback = service then try_fallbacks_run net service rest
      else case net fallback of
             FetchRejected \<Rightarrow> apfst (Cons fallback) (try_fallbacks_run net service rest)
           | Response ok text \<Rightarrow>
               if ok \<and> ipv4Regex_test (trim text) then ([fallback], Inr (trim text))
               else apfst (Cons fallback) (try_fallbacks_run net service rest))"

definition try_fallbacks :: "network \<Rightarrow> url \<Rightarrow> url list \<Rightarrow> error + jsstring" where
  "try_fallbacks net service us = snd (try_fallbacks_run net service us)"

text \<open>
  \<open>getCurrentIP\<close>: its run, and what the caller gets.  The parameter is \<open>None\<close> when the
  caller passes \<open>undefined\<close>: the default applies.
\<close>

definition getCurrentIP_run :: "network \<Rightarrow> url option \<Rightarrow> url list \<times> (error + jsstring)" where
  "getCurrentIP_run net arg =
     (let service = (case arg of None \<Rightarrow> ''https://api.ipify.org'' | Some u \<Rightarrow> u)
      in case try_primary net service of
           Inr addr \<Rightarrow> ([service], Inr addr)
         | Inl err \<Rightarrow> apfst (Cons service) (try_fallbacks_run net service fallbacks))"

definition getCurrentIP :: "network \<Rightarrow> url option \<Rightarrow> error + jsstring" where
  "getCurrentIP net arg = snd (getCurrentIP_run net arg)"

definition colon :: nat where
  "colon = 58"

definition try_ipv6 :: "network \<Rightarrow> url \<Rightarrow> error + jsstring" where
  "try_ipv6 net service6 =
     (case net service6 of
        FetchRejected \<Rightarrow> Inl FetchFailed
      | Response ok text \<Rightarrow>
          if \<not> ok then Inl HttpStatusError
          else if colon \<notin> set (trim text) then Inl InvalidIPv6Format
          else Inr (trim text))"

text \<open>\<open>getCurrentIPv6\<close> returns \<open>null\<close> (\<open>Inr None\<close>) from its \<open>catch\<close> block.\<close>

definition getCurrentIPv6 :: "network \<Rightarrow> url option \<Rightarrow> error + jsstring option" where
  "getCurrentIPv6 net arg =
     (let service6 = (case arg of None \<Rightarrow> ''https://api6.ipify.org'' | Some u \<Rightarrow> u)
      in case try_ipv6 net service6 of
           Inr addr \<Rightarrow> Inr (Some addr)
         | Inl err \<Rightarrow> Inr None)"

text \<open>\<open>promise.catch(() => null)\<close> at the call sites.\<close>

definition catch_null :: "error + 'a \<Rightarrow> 'a option" where
  "catch_null r = (case r of Inl err \<Rightarrow> None | Inr v \<Rightarrow> Some v)"

definition catch_null6 :: "error + 'a option \<Rightarrow> 'a option" where
  "catch_null6 r = (case r of Inl err \<Rightarrow> None | Inr v \<Rightarrow> v)"

section \<open>The state files (\<open>utils.js\<close>)\<close>

text \<open>
  \<open>last_ip.txt\<close> and \<open>last_ipv6.txt\<close>: the content, or \<open>None\<close> when the file is missing
  or unreadable.
\<close>

record files =
  ip_file :: "jsstring option"
  ipv6_file :: "jsstring option"

definition loadLastIP :: "files \<Rightarrow> jsstring option" where
  "loadLastIP fs = map_option trim (ip_file fs)"

definition loadLastIPv6 :: "files \<Rightarrow> jsstring option" where
  "loadLastIPv6 fs = map_option trim (ipv6_file fs)"

text \<open>
  \<open>writeFileSync\<close> throws on \<open>null\<close> data and on an unwritable file; \<open>saveCurrentIP\<close>
  swallows both.
\<close>

definition saveCurrentIP :: "bool \<Rightarrow> files \<Rightarrow> jsstring option \<Rightarrow> files" where
  "saveCurrentIP writable fs addr =
     (case addr of
        None \<Rightarrow> fs
      | Some a \<Rightarrow> if writable then fs\<lparr>ip_file := Some a\<rparr> else fs)"

definition saveCurrentIPv6 :: "bool \<Rightarrow> files \<Rightarrow> jsstring option \<Rightarrow> files" where
  "saveCurrentIPv6 writable fs addr =
     (case addr of
        None \<Rightarrow> fs
      | Some a \<Rightarrow> if writable then fs\<lparr>ipv6_file := Some a\<rparr> else fs)"

section \<open>Configuration, credentials and the update endpoint (\<open>index.js\<close>)\<close>

text \<open>
  The fields of \<open>config.json\<close> that the update paths read.  An absent property
  (\<open>undefined\<close>) is \<open>None\<close>.
\<close>

record config =
  apiToken :: "string option"
  jwtToken :: "string option"
  domain :: "string option"
  ttl :: "int option"
  ipService :: "url option"
  ipv6Service :: "url option"
  useIPv6 :: bool

text \<open>
  \<open>getAuthToken\<close>: which source the credential came from; the prompt is the last
  resort and has no guard.  \<open>answer\<close> is what the user types at the prompt.
\<close>

datatype source = CliArgument | EnvironmentVariable | ConfigJwtToken | ConfigApiToken | Prompt

definition getAuthToken ::
    "string option \<Rightarrow> string option \<Rightarrow> config \<Rightarrow> string \<Rightarrow> source \<times> string option" where
  "getAuthToken useApiKey env_key cfg answer =
     (if truthy useApiKey then (CliArgument, useApiKey)
      else if truthy env_key then (EnvironmentVariable, env_key)
      else if truthy (jwtToken cfg) then (ConfigJwtToken, jwtToken cfg)
      else if truthy (apiToken cfg) then (ConfigApiToken, apiToken cfg)
      else (Prompt, Some answer))"

text \<open>
  The body of \<open>POST /update-dns\<close> with the bearer token of its \<open>Authorization\<close> header.
  \<open>req_ip\<close> is \<open>None\<close> when the JSON carries \<open>"ip": null\<close>; \<open>req_ipv6\<close> is \<open>None\<close> when the
  property is not set.
\<close>

record request =
  req_name :: "string option"
  req_ip :: "jsstring option"
  req_ttl :: "int option"
  req_ipv6 :: "jsstring option"
  req_bearer :: "string option"

text \<open>
  What the endpoint's \<open>fetch\<close> yields: it rejects, or resolves with \<open>res.ok\<close> and a body
  on which \<open>res.json()\<close> rejects (\<open>NotJson\<close>), yields \<open>null\<close> (\<open>JsonNull\<close>: reading a
  property of it throws), or yields a value whose \<open>results\<close> property is truthy or not.
\<close>

datatype api_body = NotJson | JsonNull | JsonValue bool

datatype api_reply = ApiRejected | ApiResponse bool api_body

text \<open>
  Everything outside the program that one tick can read: the detection services as the
  call of \<open>getCurrentIP\<close> and as the call of \<open>getCurrentIPv6\<close> find them, the update
  endpoint, the answer typed at a prompt, the result of \<open>fetchRemoteConfig\<close> (\<open>null\<close> on
  any failure), whether the state file can be written, the value of the \<open>--api-key\<close>
  argument (\<open>useApiKey\<close>) and the environment variable \<open>APERTODNS_API_KEY\<close>.
\<close>

record world =
  providers :: network
  providers6 :: network
  api :: api_reply
  prompt_answer :: string
  remote_config :: "config option"
  disk_writable :: bool
  api_key_argument :: "string option"
  api_key_environment :: "string option"

text \<open>What a tick did: the requests it posted and the state files it leaves.\<close>

record effects =
  sent :: "request list"
  disk :: files

section \<open>The single-shot tick \<open>runUpdate\<close>\<close>

datatype update_status =
    ConfigNotFound
  | NoIPDetected
  | Unchanged "jsstring option"
  | Updated
  | UpdateError
  | Raised error

record run = effects +
  status :: update_status

text \<open>The token prompt and \<open>fetchRemoteConfig\<close> at the start of \<open>runUpdate\<close>.\<close>

definition acquire_config :: "config \<Rightarrow> world \<Rightarrow> config option" where
  "acquire_config cfg w =
     (if truthy (apiToken cfg) then Some cfg
      else case remote_config w of
             None \<Rightarrow> None
           | Some remoteConfig \<Rightarrow> Some (remoteConfig\<lparr>apiToken := Some (prompt_answer w)\<rparr>))"

definition dispatch :: "world \<Rightarrow> files \<Rightarrow> request \<Rightarrow> jsstring option \<Rightarrow> run" where
  "dispatch w fs body currentIP =
     (case api w of
        ApiRejected \<Rightarrow> \<lparr>sent = [body], disk = fs, status = Raised FetchFailed\<rparr>
      | ApiResponse ok NotJson \<Rightarrow> \<lparr>sent = [body], disk = fs, status = Raised JsonSyntaxError\<rparr>
      | ApiResponse ok JsonNull \<Rightarrow> \<lparr>sent = [body], disk = fs, status = Raised NullTypeError\<rparr>
      | ApiResponse ok (JsonValue results) \<Rightarrow>
          if ok \<and> results
          then \<lparr>sent = [body], disk = saveCurrentIP (disk_writable w) fs currentIP,
                status = Updated\<rparr>
          else \<lparr>sent = [body], disk = fs, status = UpdateError\<rparr>)"

definition runUpdate :: "bool \<Rightarrow> config \<Rightarrow> world \<Rightarrow> files \<Rightarrow> run" where
  "runUpdate forceUpdate cfg0 w fs =
     (case acquire_config cfg0 w of
        None \<Rightarrow> \<lparr>sent = [], disk = fs, status = ConfigNotFound\<rparr>
      | Some cfg \<Rightarrow>
          let currentIP = catch_null (getCurrentIP (providers w) (ipService cfg));
              currentIPv6 =
                (if useIPv6 cfg
                 then catch_null6 (getCurrentIPv6 (providers6 w) (ipv6Service cfg))
                 else None)
          in if \<not> truthy currentIP \<and> \<not> truthy currentIPv6
             then \<lparr>sent = [], disk = fs, status = NoIPDetected\<rparr>
             else
               let lastIP = loadLastIP fs
               in if \<not> forceUpdate \<and> lastIP = currentIP
                  then \<lparr>sent = [], disk = fs, status = Unchanged currentIP\<rparr>
                  else dispatch w fs
                         \<lparr>req_name = domain cfg, req_ip = currentIP, req_ttl = ttl cfg,
                          req_ipv6 = (if truthy currentIPv6 then currentIPv6 else None),
                          req_bearer = apiToken cfg\<rparr>
                         currentIP)"

section \<open>The daemon tick \<open>update\<close> of \<open>runDaemonMode\<close>\<close>

text \<open>The lines a daemon tick prints; each is printed behind the tick's timestamp.\<close>

datatype message =
    IPUnchanged "jsstring option"
  | IPChanged "jsstring option" "jsstring option"
  | DNSUpdated
  | ServerError
  | ErrorMessage error

type_synonym timestamp = nat

record tick = effects +
  printed :: "(timestamp \<times> message) list"
  raised :: "error option"

text \<open>\<open>a || b\<close> on a string-or-undefined and on a number-or-undefined.\<close>

definition or_url :: "url option \<Rightarrow> url \<Rightarrow> url" where
  "or_url a b = (case a of None \<Rightarrow> b | Some u \<Rightarrow> if u = [] then b else u)"

definition or_int :: "int option \<Rightarrow> int \<Rightarrow> int" where
  "or_int a b = (case a of None \<Rightarrow> b | Some n \<Rightarrow> if n = 0 then b else n)"

text \<open>The \<open>try\<close> block of \<open>update\<close>; \<open>raised\<close> is the exception that leaves it.\<close>

definition update_try :: "config \<Rightarrow> timestamp \<Rightarrow> world \<Rightarrow> files \<Rightarrow> tick" where
  "update_try cfg ts w fs =
     (let currentIP =
            catch_null (getCurrentIP (providers w)
                          (Some (or_url (ipService cfg) ''https://api.ipify.org'')));
          lastIP = loadLastIP fs
      in if lastIP = currentIP
         then \<lparr>sent = [], disk = fs, printed = [(ts, IPUnchanged currentIP)], raised = None\<rparr>
         else if truthy (apiToken cfg) \<and> truthy (domain cfg)
         then
           let body = \<lparr>req_name = domain cfg, req_ip = currentIP,
                       req_ttl = Some (or_int (ttl cfg) 300), req_ipv6 = None,
                       req_bearer = apiToken cfg\<rparr>
           in case api w of
                ApiRejected \<Rightarrow>
                  \<lparr>sent = [body], disk = fs, printed = [(ts, IPChanged lastIP currentIP)],
                   raised = Some FetchFailed\<rparr>
              | ApiResponse ok reply \<Rightarrow>
                  if ok
                  then \<lparr>sent = [body], disk = saveCurrentIP (disk_writable w) fs currentIP,
                        printed = [(ts, IPChanged lastIP currentIP), (ts, DNSUpdated)],
                        raised = None\<rparr>
                  else (case reply of
                          NotJson \<Rightarrow>
                            \<lparr>sent = [body], disk = fs,
                             printed = [(ts, IPChanged lastIP currentIP)],
                             raised = Some JsonSyntaxError\<rparr>
                        | JsonNull \<Rightarrow>
                            \<lparr>sent = [body], disk = fs,
                             printed = [(ts, IPChanged lastIP currentIP)],
                             raised = Some NullTypeError\<rparr>
                        | JsonValue results \<Rightarrow>
                            \<lparr>sent = [body], disk = fs,
                             printed = [(ts, IPChanged lastIP currentIP), (ts, ServerError)],
                             raised = None\<rparr>)
         else \<lparr>sent = [], disk = fs, printed = [(ts, IPChanged lastIP currentIP)],
               raised = None\<rparr>)"

text \<open>\<open>update\<close>: the \<open>catch\<close> block prints the error and the promise resolves.\<close>

definition update :: "config \<Rightarrow> timestamp \<Rightarrow> world \<Rightarrow> files \<Rightarrow> tick" where
  "update cfg ts w fs =
     (let t = update_try cfg ts w fs
      in case raised t of
           None \<Rightarrow> t
         | Some err \<Rightarrow> t\<lparr>printed := printed t @ [(ts, ErrorMessage err)], raised := None\<rparr>)"

text \<open>
  The ticks of a daemon whose timer fires once per element of the list, each tick run to
  its end before the next firing is handled.  A tick whose promise rejected would end the
  process (the first through \<open>main\<close>'s \<open>catch\<close>, a later one as an unhandled rejection), so
  the list of ticks stops there.
\<close>

fun run_ticks :: "config \<Rightarrow> files \<Rightarrow> (timestamp \<times> world) list \<Rightarrow> tick list" where
  "run_ticks cfg fs [] = []"
| "run_ticks cfg fs ((ts, w) # later) =
     (let t = update cfg ts w fs
      in case raised t of
           None \<Rightarrow> t # run_ticks cfg (disk t) later
         | Some err \<Rightarrow> [t])"

section \<open>The schedule of \<open>runDaemonMode\<close>\<close>





section \<open>The vocabulary of the specification\<close>

text \<open>One to three decimal digits: what \<open>\d{1,3}\<close> matches.\<close>

definition digit_group :: "jsstring \<Rightarrow> bool" where
  "digit_group p = (1 \<le> length p \<and> length p \<le> 3 \<and> list_all is_digit p)"

text \<open>
  The dotted quad of the specification: four dot-separated decimal octets, each between
  0 and 255.
\<close>

fun split_dots :: "jsstring \<Rightarrow> jsstring list" where
  "split_dots [] = [[]]"
| "split_dots (c # s) =
     (if c = dot then [] # split_dots s
      else case split_dots s of [] \<Rightarrow> [[c]] | p # ps \<Rightarrow> (c # p) # ps)"

fun join_dots :: "jsstring list \<Rightarrow> jsstring" where
  "join_dots [] = []"
| "join_dots [p] = p"
| "join_dots (p # q # ps) = p @ dot # join_dots (q # ps)"

definition decimal_value :: "jsstring \<Rightarrow> nat" where
  "decimal_value p = foldl (\<lambda>n c. 10 * n + (c - 48)) 0 p"

definition octet :: "jsstring \<Rightarrow> bool" where
  "octet p = (digit_group p \<and> decimal_value p \<le> 255)"

definition dotted_quad :: "jsstring \<Rightarrow> bool" where
  "dotted_quad s = (length (split_dots s) = 4 \<and> list_all octet (split_dots s))"

text \<open>Four dot-separated groups of one to three decimal digits, octets unbounded.\<close>

definition loose_quad :: "jsstring \<Rightarrow> bool" where
  "loose_quad s = (length (split_dots s) = 4 \<and> list_all digit_group (split_dots s))"

text \<open>
  The address a reply is worth under a validity test; the first fallback, in list order,
  whose reply is worth one ("return the first address that validates"); and the services
  asked on the way to it.
\<close>

definition accepted :: "(jsstring \<Rightarrow> bool) \<Rightarrow> response \<Rightarrow> jsstring option" where
  "accepted valid r =
     (case r of
        FetchRejected \<Rightarrow> None
      | Response ok text \<Rightarrow> if ok \<and> valid (trim text) then Some (trim text) else None)"

fun first_accepted :: "(jsstring \<Rightarrow> bool) \<Rightarrow> network \<Rightarrow> url list \<Rightarrow> jsstring option" where
  "first_accepted valid net [] = None"
| "first_accepted valid net (u # us) =
     (case accepted valid (net u) of
        Some addr \<Rightarrow> Some addr
      | None \<Rightarrow> first_accepted valid net us)"

fun tried :: "(jsstring \<Rightarrow> bool) \<Rightarrow> network \<Rightarrow> url list \<Rightarrow> url list" where
  "tried valid net [] = []"
| "tried valid net (u # us) =
     (case accepted valid (net u) of
        Some addr \<Rightarrow> [u]
      | None \<Rightarrow> u # tried valid net us)"

definition has_colon :: "jsstring \<Rightarrow> bool" where
  "has_colon s = (colon \<in> set s)"

text \<open>
  "For IPv6: identical discovery strategy": the preferred service, then the fallback
  services other than it, in order, with the IPv6 validity test; absent when none answers.
\<close>

definition identical_strategy6 :: "url list \<Rightarrow> network \<Rightarrow> url \<Rightarrow> jsstring option" where
  "identical_strategy6 fbs net service6 =
     (case accepted has_colon (net service6) of
        Some addr \<Rightarrow> Some addr
      | None \<Rightarrow> first_accepted has_colon net (filter (\<lambda>u. u \<noteq> service6) fbs))"

text \<open>"Resolved in the fixed order": the first credential of a list that is present.\<close>

fun first_present :: "string option list \<Rightarrow> string option" where
  "first_present [] = None"
| "first_present (c # cs) = (if truthy c then c else first_present cs)"

text \<open>The decision of the specification's Reconciler for one address family.\<close>

datatype decision = DecideUnchanged | DecideChanged | DecideForcedUpdate

definition reconcile :: "bool \<Rightarrow> jsstring option \<Rightarrow> jsstring \<Rightarrow> decision" where
  "reconcile force stored resolved =
     (if force then DecideForcedUpdate
      else if stored = Some resolved then DecideUnchanged
      else DecideChanged)"

section \<open>Example environments\<close>

text \<open>Detection services: none reachable; only the second fallback answering, with a
  trailing newline; every service, or only the second fallback, answering with an
  out-of-range quad.\<close>

definition no_network :: network where
  "no_network u = FetchRejected"

definition only_ifconfig :: network where
  "only_ifconfig u =
     (if u = ''https://ifconfig.me/ip'' then Response True (js ''203.0.113.5'' @ [10])
      else FetchRejected)"

definition loose_net :: network where
  "loose_net u = Response True (js ''999.999.999.999'')"

definition loose_fallback :: network where
  "loose_fallback u =
     (if u = ''https://ifconfig.me/ip'' then Response True (js ''999.999.999.999'')
      else FetchRejected)"

text \<open>The preferred IPv6 service unreachable, every other service answering.\<close>

definition v6_elsewhere :: network where
  "v6_elsewhere u =
     (if u = ''https://api6.ipify.org'' then FetchRejected
      else Response True (js ''2001:db8::1''))"

text \<open>
  A configured client, with and without IPv6; detection services that answer
  \<open>203.0.113.5\<close> and, for IPv6, \<open>2001:db8::1\<close>; an endpoint that acknowledges; state files
  holding the current address, an older one, or nothing.
\<close>

definition home_cfg :: config where
  "home_cfg =
     \<lparr>apiToken = Some ''token'', jwtToken = None, domain = Some ''home.example.org'',
      ttl = Some 300, ipService = None, ipv6Service = None, useIPv6 = False\<rparr>"

definition dual_cfg :: config where
  "dual_cfg = home_cfg\<lparr>useIPv6 := True\<rparr>"

definition steady_net :: network where
  "steady_net u =
     (if u = ''https://api6.ipify.org'' then Response True (js ''2001:db8::1'')
      else Response True (js ''203.0.113.5''))"

definition calm_world :: world where
  "calm_world =
     \<lparr>providers = steady_net, providers6 = steady_net,
      api = ApiResponse True (JsonValue True), prompt_answer = [], remote_config = None,
      disk_writable = True, api_key_argument = None, api_key_environment = None\<rparr>"

definition known_files :: files where
  "known_files = \<lparr>ip_file = Some (js ''203.0.113.5''), ipv6_file = None\<rparr>"

definition older_files :: files where
  "older_files = \<lparr>ip_file = Some (js ''198.51.100.7''), ipv6_file = None\<rparr>"

definition no_files :: files where
  "no_files = \<lparr>ip_file = None, ipv6_file = None\<rparr>"

text \<open>
  The same world with no detection service reachable, with only the IPv6 service
  reachable, with an endpoint whose 2xx reply is not JSON, and with an unreachable
  endpoint; a client without a token, and one with a JWT only.
\<close>

definition dark_world :: world where
  "dark_world = calm_world\<lparr>providers := no_network\<rparr>"

definition v6_only_net :: network where
  "v6_only_net u =
     (if u = ''https://api6.ipify.org'' then Response True (js ''2001:db8::1'')
      else FetchRejected)"

definition v6_only_world :: world where
  "v6_only_world = calm_world\<lparr>providers := v6_only_net, providers6 := v6_only_net\<rparr>"

definition garbled_world :: world where
  "garbled_world = calm_world\<lparr>api := ApiResponse True NotJson\<rparr>"

definition offline_world :: world where
  "offline_world = calm_world\<lparr>api := ApiRejected\<rparr>"

definition anonymous_cfg :: config where
  "anonymous_cfg = home_cfg\<lparr>apiToken := None\<rparr>"

definition jwt_cfg :: config where
  "jwt_cfg = anonymous_cfg\<lparr>jwtToken := Some ''jwt''\<rparr>"

text \<open>The calm world of a process started with \<open>--api-key\<close> and with the environment key.\<close>

definition keyed_world :: world where
  "keyed_world =
     calm_world\<lparr>api_key_argument := Some ''key'', api_key_environment := Some ''env''\<rparr>"


section \<open>The language of the regular expression\<close>

lemma rests_Digit_iff: "t \<in> set (rests Digit s) \<longleftrightarrow> (\<exists>c. is_digit c \<and> s = c # t)"
  by (cases s) auto

lemma rests_Lit_iff: "t \<in> set (rests (Lit a) s) \<longleftrightarrow> s = a # t"
  by (cases s) auto

lemma rests_digits_iff:
  "t \<in> set (rests (Rep m n Digit) s) \<longleftrightarrow>
     (\<exists>p. s = p @ t \<and> m \<le> length p \<and> length p \<le> n \<and> list_all is_digit p)"
proof (induction n arbitrary: m s)
  case 0
  then show ?case by (cases m) auto
next
  case (Suc n)
  show ?case
  proof (cases m)
    case 0
    have "t \<in> set (rests (Rep 0 (Suc n) Digit) s) \<longleftrightarrow>
            (s = t \<or> (\<exists>u. u \<in> set (rests Digit s) \<and> t \<in> set (rests (Rep 0 n Digit) u)))"
      by auto
    also have "\<dots> \<longleftrightarrow>
            (s = t \<or> (\<exists>c u. is_digit c \<and> s = c # u \<and> t \<in> set (rests (Rep 0 n Digit) u)))"
      unfolding rests_Digit_iff by blast
    also have "\<dots> \<longleftrightarrow>
            (\<exists>p. s = p @ t \<and> 0 \<le> length p \<and> length p \<le> Suc n \<and> list_all is_digit p)"
      (is "?L \<longleftrightarrow> ?R")
    proof
      assume ?L
      then show ?R
      proof
        assume "s = t"
        then have "s = [] @ t \<and> length ([]::jsstring) \<le> Suc n \<and> list_all is_digit []"
          by simp
        then show ?R by blast
      next
        assume "\<exists>c u. is_digit c \<and> s = c # u \<and> t \<in> set (rests (Rep 0 n Digit) u)"
        then obtain c u p where
          "is_digit c" "s = c # u" "u = p @ t" "length p \<le> n" "list_all is_digit p"
          using Suc.IH[of 0] by auto
        then have "s = (c # p) @ t \<and> length (c # p) \<le> Suc n \<and> list_all is_digit (c # p)"
          by simp
        then show ?R by blast
      qed
    next
      assume ?R
      then obtain p where p: "s = p @ t" "length p \<le> Suc n" "list_all is_digit p"
        by auto
      show ?L
      proof (cases p)
        case Nil
        with p show ?thesis by simp
      next
        case (Cons c q)
        with p have "is_digit c \<and> s = c # (q @ t) \<and> t \<in> set (rests (Rep 0 n Digit) (q @ t))"
          using Suc.IH[of 0 "q @ t"] by auto
        then show ?thesis by blast
      qed
    qed
    finally show ?thesis using 0 by simp
  next
    case (Suc m')
    have "t \<in> set (rests (Rep (Suc m') (Suc n) Digit) s) \<longleftrightarrow>
            (\<exists>u. u \<in> set (rests Digit s) \<and> t \<in> set (rests (Rep m' n Digit) u))"
      by auto
    also have "\<dots> \<longleftrightarrow>
            (\<exists>c u. is_digit c \<and> s = c # u \<and> t \<in> set (rests (Rep m' n Digit) u))"
      unfolding rests_Digit_iff by blast
    also have "\<dots> \<longleftrightarrow>
            (\<exists>p. s = p @ t \<and> Suc m' \<le> length p \<and> length p \<le> Suc n \<and> list_all is_digit p)"
      (is "?L \<longleftrightarrow> ?R")
    proof
      assume ?L
      then obtain c u p where
        "is_digit c" "s = c # u" "u = p @ t" "m' \<le> length p" "length p \<le> n"
        "list_all is_digit p"
        using Suc.IH[of m'] by auto
      then have "s = (c # p) @ t \<and> Suc m' \<le> length (c # p) \<and> length (c # p) \<le> Suc n
                   \<and> list_all is_digit (c # p)"
        by simp
      then show ?R by blast
    next
      assume ?R
      then obtain p where
        p: "s = p @ t" "Suc m' \<le> length p" "length p \<le> Suc n" "list_all is_digit p"
        by auto
      then obtain c q where "p = c # q" by (cases p) auto
      with p have "is_digit c \<and> s = c # (q @ t) \<and> t \<in> set (rests (Rep m' n Digit) (q @ t))"
        using Suc.IH[of m' "q @ t"] by auto
      then show ?L by blast
    qed
    finally show ?thesis using Suc by simp
  qed
qed

lemma rests_group_iff:
  "t \<in> set (rests (Seq (Rep 1 3 Digit) (Lit dot)) s) \<longleftrightarrow>
     (\<exists>p. s = p @ dot # t \<and> digit_group p)"
  by (auto simp: rests_digits_iff rests_Lit_iff digit_group_def)

lemma rests_thrice_iff:
  "t \<in> set (rests (Rep 3 3 r) s) \<longleftrightarrow>
     (\<exists>u v. u \<in> set (rests r s) \<and> v \<in> set (rests r u) \<and> t \<in> set (rests r v))"
proof -
  have "t \<in> set (rests (Rep (Suc (Suc (Suc 0))) (Suc (Suc (Suc 0))) r) s) \<longleftrightarrow>
     (\<exists>u v. u \<in> set (rests r s) \<and> v \<in> set (rests r u) \<and> t \<in> set (rests r v))"
    by auto
  then show ?thesis by (simp only: numeral_3_eq_3)
qed

lemma rests_three_groups_iff:
  "t \<in> set (rests (Rep 3 3 (Seq (Rep 1 3 Digit) (Lit dot))) s) \<longleftrightarrow>
     (\<exists>a b c. s = a @ dot # b @ dot # c @ dot # t \<and>
        digit_group a \<and> digit_group b \<and> digit_group c)"
  unfolding rests_thrice_iff rests_group_iff by auto

lemma ipv4Regex_test_iff:
  "ipv4Regex_test s \<longleftrightarrow>
     (\<exists>a b c d. s = a @ dot # b @ dot # c @ dot # d \<and>
        digit_group a \<and> digit_group b \<and> digit_group c \<and> digit_group d)"
proof -
  have "ipv4Regex_test s \<longleftrightarrow>
          (\<exists>d. d \<in> set (rests (Rep 3 3 (Seq (Rep 1 3 Digit) (Lit dot))) s) \<and>
             [] \<in> set (rests (Rep 1 3 Digit) d))"
    by (auto simp: ipv4Regex_test_def rx_test_def ipv4Regex_def)
  also have "\<dots> \<longleftrightarrow>
          (\<exists>a b c d. s = a @ dot # b @ dot # c @ dot # d \<and>
             digit_group a \<and> digit_group b \<and> digit_group c \<and> digit_group d)"
    unfolding rests_three_groups_iff rests_digits_iff digit_group_def by auto
  finally show ?thesis .
qed

text \<open>Every dotted quad of the specification matches the pattern of the code.\<close>

lemma split_dots_nonempty: "split_dots s \<noteq> []"
  by (induction s) (auto split: list.splits)

lemma join_split_dots: "join_dots (split_dots s) = s"
proof (induction s)
  case Nil
  show ?case by simp
next
  case (Cons c s)
  obtain p ps where ps: "split_dots s = p # ps"
    using split_dots_nonempty[of s] by (cases "split_dots s") auto
  show ?case
  proof (cases "c = dot")
    case True
    with Cons ps show ?thesis by simp
  next
    case False
    with Cons ps show ?thesis by (cases ps) auto
  qed
qed

lemma dotted_quad_matches:
  assumes "dotted_quad s"
  shows "ipv4Regex_test s"
proof -
  from assms have len: "length (split_dots s) = 4" and all: "list_all octet (split_dots s)"
    by (simp_all add: dotted_quad_def)
  from len obtain a b c d where parts: "split_dots s = [a, b, c, d]"
    by (auto simp: length_Suc_conv numeral_eq_Suc)
  have "s = join_dots [a, b, c, d]"
    using join_split_dots[of s] parts by simp
  then have "s = a @ dot # b @ dot # c @ dot # d"
    by simp
  moreover have "digit_group a \<and> digit_group b \<and> digit_group c \<and> digit_group d"
    using all parts by (simp add: octet_def)
  ultimately show ?thesis
    unfolding ipv4Regex_test_iff by blast
qed

text \<open>Evaluating the matcher on a literal string.\<close>

lemma rests_Rep_unfold:
  "rests (Rep m n r) s =
     (if n = 0 then (if m = 0 then [s] else [])
      else concat (map (rests (Rep (m - 1) (n - 1) r)) (rests r s)) @
           (if m = 0 then [s] else []))"
  by (cases m; cases n) simp_all

lemmas regex_eval =
  ipv4Regex_test_def rx_test_def ipv4Regex_def is_digit_def dot_def rests_Rep_unfold

section \<open>Trimming\<close>

lemma digit_not_ws: "is_digit c \<Longrightarrow> \<not> is_ws c"
  by (auto simp: is_digit_def is_ws_def)

lemma digit_group_ends:
  assumes "digit_group p"
  shows "\<exists>c q. p = c # q \<and> is_digit c" and "\<exists>c q. p = q @ [c] \<and> is_digit c"
proof -
  from assms have ne: "p \<noteq> []" and all: "list_all is_digit p"
    by (auto simp: digit_group_def)
  from ne all show "\<exists>c q. p = c # q \<and> is_digit c"
    by (cases p) auto
  from ne all show "\<exists>c q. p = q @ [c] \<and> is_digit c"
    by (cases p rule: rev_cases) auto
qed

lemma trim_no_ws_ends:
  assumes "s = c # u" and "s = v @ [e]" and "\<not> is_ws c" and "\<not> is_ws e"
  shows "trim s = s"
proof -
  have "dropWhile is_ws s = s"
    using assms(1,3) by simp
  moreover have "rev s = e # rev v"
    using assms(2) by simp
  then have "dropWhile is_ws (rev s) = rev s"
    using assms(4) by simp
  ultimately show ?thesis
    by (simp add: trim_def)
qed

lemma ipv4Regex_test_trimmed:
  assumes "ipv4Regex_test s"
  shows "trim s = s"
proof -
  from assms obtain a b c d where
    s: "s = a @ dot # b @ dot # c @ dot # d" and a: "digit_group a" and d: "digit_group d"
    unfolding ipv4Regex_test_iff by blast
  from digit_group_ends(1)[OF a] obtain x a' where x: "a = x # a'" "is_digit x"
    by blast
  from digit_group_ends(2)[OF d] obtain y d' where y: "d = d' @ [y]" "is_digit y"
    by blast
  have "s = x # (a' @ dot # b @ dot # c @ dot # d)"
    using s x by simp
  moreover have "s = (a @ dot # b @ dot # c @ dot # d') @ [y]"
    using s y by simp
  moreover have "\<not> is_ws x" and "\<not> is_ws y"
    using x(2) y(2) by (simp_all add: digit_not_ws)
  ultimately show ?thesis
    by (rule trim_no_ws_ends)
qed

lemma ipv4Regex_test_nonempty: "ipv4Regex_test s \<Longrightarrow> s \<noteq> []"
  unfolding ipv4Regex_test_iff by auto

section \<open>The fallback loop\<close>

text \<open>What the caller gets from a run.\<close>

lemma try_fallbacks_Nil [simp]: "try_fallbacks net service [] = Inl UnableToDetectIP"
  by (simp add: try_fallbacks_def)

lemma try_fallbacks_Cons [simp]:
  "try_fallbacks net service (fallback # rest) =
     (if fallback = service then try_fallbacks net service rest
      else case net fallback of
             FetchRejected \<Rightarrow> try_fallbacks net service rest
           | Response ok text \<Rightarrow>
               if ok \<and> ipv4Regex_test (trim text) then Inr (trim text)
               else try_fallbacks net service rest)"
  by (simp add: try_fallbacks_def split: response.splits)

lemma getCurrentIP_eq:
  "getCurrentIP net arg =
     (let service = (case arg of None \<Rightarrow> ''https://api.ipify.org'' | Some u \<Rightarrow> u)
      in case try_primary net service of
           Inr addr \<Rightarrow> Inr addr
         | Inl err \<Rightarrow> try_fallbacks net service fallbacks)"
  by (simp add: getCurrentIP_def getCurrentIP_run_def try_fallbacks_def Let_def
        split: sum.splits)

lemma accepted_SomeD:
  "accepted valid r = Some addr \<Longrightarrow> valid addr \<and> (\<exists>text. r = Response True text \<and> addr = trim text)"
  by (auto simp: accepted_def split: response.splits if_splits)

lemma first_accepted_SomeD:
  "first_accepted valid net us = Some addr \<Longrightarrow>
     \<exists>u \<in> set us. accepted valid (net u) = Some addr"
  by (induction us) (auto split: option.splits)

lemma try_primary_accepted:
  "try_primary net service =
     (case accepted ipv4Regex_test (net service) of
        Some addr \<Rightarrow> Inr addr
      | None \<Rightarrow>
          (case net service of
             FetchRejected \<Rightarrow> Inl FetchFailed
           | Response ok text \<Rightarrow> if ok then Inl InvalidIPv4Format else Inl HttpStatusError))"
  by (simp add: try_primary_def accepted_def split: response.splits)

lemma try_fallbacks_first_accepted:
  "try_fallbacks net service us =
     (case first_accepted ipv4Regex_test net (filter (\<lambda>u. u \<noteq> service) us) of
        Some addr \<Rightarrow> Inr addr
      | None \<Rightarrow> Inl UnableToDetectIP)"
  by (induction us) (auto simp: accepted_def split: response.splits)

lemma try_fallbacks_valid:
  "try_fallbacks net service us = Inr addr \<Longrightarrow> ipv4Regex_test addr"
  by (induction us) (auto split: response.splits if_splits)

lemma try_fallbacks_error:
  "try_fallbacks net service us = Inl err \<Longrightarrow> err = UnableToDetectIP"
  by (induction us) (auto split: response.splits if_splits)

lemma getCurrentIP_valid:
  "getCurrentIP net arg = Inr addr \<Longrightarrow> ipv4Regex_test addr"
  by (auto simp: getCurrentIP_eq Let_def try_primary_def
           split: sum.splits response.splits if_splits dest: try_fallbacks_valid)

lemma getCurrentIP_error:
  "getCurrentIP net arg = Inl err \<Longrightarrow> err = UnableToDetectIP"
  by (auto simp: getCurrentIP_eq Let_def split: sum.splits dest: try_fallbacks_error)

lemma getCurrentIP_source:
  assumes "getCurrentIP net arg = Inr addr"
  shows "\<exists>u text. net u = Response True text \<and> addr = trim text"
proof -
  define service where "service = (case arg of None \<Rightarrow> ''https://api.ipify.org'' | Some u \<Rightarrow> u)"
  show ?thesis
  proof (cases "accepted ipv4Regex_test (net service)")
    case (Some a)
    then have "getCurrentIP net arg = Inr a"
      by (simp add: getCurrentIP_eq try_primary_accepted service_def)
    with assms Some have "accepted ipv4Regex_test (net service) = Some addr"
      by simp
    then show ?thesis
      using accepted_SomeD by blast
  next
    case None
    then have "\<exists>err. try_primary net service = Inl err"
      by (simp add: try_primary_accepted split: response.splits)
    then have "try_fallbacks net service fallbacks = Inr addr"
      using assms by (auto simp: getCurrentIP_eq service_def)
    then have "first_accepted ipv4Regex_test net (filter (\<lambda>u. u \<noteq> service) fallbacks)
        = Some addr"
      by (simp add: try_fallbacks_first_accepted split: option.splits)
    then obtain u where "accepted ipv4Regex_test (net u) = Some addr"
      using first_accepted_SomeD by blast
    then show ?thesis
      using accepted_SomeD by blast
  qed
qed

text \<open>The pattern of the code is the loose quad.\<close>

lemma digit_group_no_dot: "digit_group p \<Longrightarrow> dot \<notin> set p"
  by (auto simp: digit_group_def list_all_iff is_digit_def dot_def)

lemma split_dots_no_dot: "dot \<notin> set p \<Longrightarrow> split_dots p = [p]"
  by (induction p) auto

lemma split_dots_append: "dot \<notin> set p \<Longrightarrow> split_dots (p @ dot # t) = p # split_dots t"
  by (induction p) auto

lemma ipv4Regex_test_loose_quad: "ipv4Regex_test s = loose_quad s"
proof
  assume "ipv4Regex_test s"
  then obtain a b c d where
    s: "s = a @ dot # b @ dot # c @ dot # d" and
    g: "digit_group a" "digit_group b" "digit_group c" "digit_group d"
    unfolding ipv4Regex_test_iff by blast
  have "split_dots s = [a, b, c, d]"
    using g by (simp add: s split_dots_append split_dots_no_dot digit_group_no_dot)
  then show "loose_quad s"
    using g by (simp add: loose_quad_def)
next
  assume "loose_quad s"
  then have len: "length (split_dots s) = 4" and all: "list_all digit_group (split_dots s)"
    by (simp_all add: loose_quad_def)
  from len obtain a b c d where parts: "split_dots s = [a, b, c, d]"
    by (auto simp: length_Suc_conv numeral_eq_Suc)
  have "s = join_dots [a, b, c, d]"
    using join_split_dots[of s] parts by simp
  then have "s = a @ dot # b @ dot # c @ dot # d"
    by simp
  moreover have "digit_group a \<and> digit_group b \<and> digit_group c \<and> digit_group d"
    using all parts by simp
  ultimately show "ipv4Regex_test s"
    unfolding ipv4Regex_test_iff by blast
qed

lemma accepted_loose_quad: "accepted ipv4Regex_test r = accepted loose_quad r"
  by (simp add: accepted_def ipv4Regex_test_loose_quad split: response.splits)

lemma first_accepted_loose_quad:
  "first_accepted ipv4Regex_test net us = first_accepted loose_quad net us"
  by (induction us) (auto simp: accepted_loose_quad split: option.splits)

text \<open>The run of the loop.\<close>

lemma try_fallbacks_run_tried:
  "try_fallbacks_run net service us =
     (tried loose_quad net (filter (\<lambda>u. u \<noteq> service) us),
      case first_accepted loose_quad net (filter (\<lambda>u. u \<noteq> service) us) of
        Some addr \<Rightarrow> Inr addr
      | None \<Rightarrow> Inl UnableToDetectIP)"
  by (induction us)
     (auto simp: accepted_def ipv4Regex_test_loose_quad split: response.splits option.splits)

lemma tried_take: "\<exists>k. tried valid net us = take k us"
proof (induction us)
  case Nil
  show ?case by simp
next
  case (Cons u us)
  then obtain k where k: "tried valid net us = take k us"
    by blast
  show ?case
  proof (cases "accepted valid (net u)")
    case None
    then have "tried valid net (u # us) = take (Suc k) (u # us)"
      using k by simp
    then show ?thesis by blast
  next
    case (Some a)
    then have "tried valid net (u # us) = take (Suc 0) (u # us)"
      by simp
    then show ?thesis by blast
  qed
qed

lemma tried_filter:
  "service \<notin> set (tried valid net (filter (\<lambda>u. u \<noteq> service) us))"
  "distinct us \<Longrightarrow> distinct (tried valid net (filter (\<lambda>u. u \<noteq> service) us))"
proof -
  obtain k where k: "tried valid net (filter (\<lambda>u. u \<noteq> service) us)
      = take k (filter (\<lambda>u. u \<noteq> service) us)"
    using tried_take by blast
  have "set (take k (filter (\<lambda>u. u \<noteq> service) us)) \<subseteq> set (filter (\<lambda>u. u \<noteq> service) us)"
    by (rule set_take_subset)
  then show "service \<notin> set (tried valid net (filter (\<lambda>u. u \<noteq> service) us))"
    unfolding k by auto
  show "distinct us \<Longrightarrow> distinct (tried valid net (filter (\<lambda>u. u \<noteq> service) us))"
    unfolding k by simp
qed

lemma distinct_fallbacks: "distinct fallbacks"
  by (simp add: fallbacks_def)

lemma getCurrentIP_fetches_once: "distinct (fst (getCurrentIP_run net arg))"
  by (auto simp: getCurrentIP_run_def Let_def try_fallbacks_run_tried tried_filter
        distinct_fallbacks split: sum.splits)

section \<open>IPv4 resolution\<close>

lemma valid_203: "ipv4Regex_test (js ''203.0.113.5'')"
  by (simp add: js_def regex_eval)

lemma trim_203_newline: "trim (js ''203.0.113.5'' @ [10]) = js ''203.0.113.5''"
  by (simp add: trim_def js_def is_ws_def)

lemma valid_999: "ipv4Regex_test (js ''999.999.999.999'')"
  by (simp add: js_def regex_eval)

text \<open>
  C3, as stated, fails on "validates": the loop accepts by the loose pattern.  With the
  preferred service unreachable and the first fallback answering \<open>999.999.999.999\<close>, that
  text is returned, and it is no dotted quad of octets between 0 and 255.
\<close>

theorem C3_counterexample:
  "getCurrentIP_run loose_fallback None
     = ([''https://api.ipify.org'', ''https://ifconfig.me/ip''], Inr (js ''999.999.999.999''))
   \<and> \<not> dotted_quad (js ''999.999.999.999'')"
proof
  have "trim (js ''999.999.999.999'') = js ''999.999.999.999''"
    using valid_999 by (rule ipv4Regex_test_trimmed)
  then show "getCurrentIP_run loose_fallback None
     = ([''https://api.ipify.org'', ''https://ifconfig.me/ip''], Inr (js ''999.999.999.999''))"
    by (simp add: getCurrentIP_run_def try_primary_def loose_fallback_def fallbacks_def
          valid_999)
next
  show "\<not> dotted_quad (js ''999.999.999.999'')"
    by (simp add: dotted_quad_def octet_def digit_group_def decimal_value_def is_digit_def
          js_def dot_def)
qed

text \<open>
  C3, amended.  When the preferred service's call is rejected (error or timeout), answers
  with a non-2xx status or with a text that is no loose quad (four dot-separated groups
  of one to three decimal digits, octets unbounded), \<open>getCurrentIP\<close> fetches, after it,
  the services \<open>api.ipify.org\<close>, \<open>ifconfig.me/ip\<close>, \<open>icanhazip.com\<close>,
  \<open>checkip.amazonaws.com\<close> in this order, the preferred one left out and never fetched
  again, up to the first whose 2xx reply is a loose quad after trimming, and returns that
  text; when there is none it throws "Unable to detect IP address".
  Whatever it returns is the trimmed text of some service's 2xx reply, is a loose quad
  and has no surrounding whitespace.
\<close>

theorem C3_fallback_order:
  assumes "accepted loose_quad (net service) = None"
      and "others = filter (\<lambda>u. u \<noteq> service)
             [''https://api.ipify.org'', ''https://ifconfig.me/ip'', ''https://icanhazip.com'',
              ''https://checkip.amazonaws.com'']"
  shows "getCurrentIP_run net (Some service) =
           (service # tried loose_quad net others,
            case first_accepted loose_quad net others of
              Some addr \<Rightarrow> Inr addr
            | None \<Rightarrow> Inl UnableToDetectIP)
         \<and> service \<notin> set (tl (fst (getCurrentIP_run net (Some service))))
         \<and> (\<forall>addr. getCurrentIP net (Some service) = Inr addr \<longrightarrow>
               loose_quad addr \<and> trim addr = addr
               \<and> (\<exists>u text. net u = Response True text \<and> addr = trim text))"
proof (intro conjI)
  have others: "others = filter (\<lambda>u. u \<noteq> service) fallbacks"
    unfolding assms(2) fallbacks_def by (rule refl)
  from assms(1) have "\<exists>err. try_primary net service = Inl err"
    by (simp add: try_primary_accepted accepted_loose_quad split: response.splits)
  then show run: "getCurrentIP_run net (Some service) =
           (service # tried loose_quad net others,
            case first_accepted loose_quad net others of
              Some addr \<Rightarrow> Inr addr
            | None \<Rightarrow> Inl UnableToDetectIP)"
    unfolding others by (auto simp: getCurrentIP_run_def try_fallbacks_run_tried)
  show "service \<notin> set (tl (fst (getCurrentIP_run net (Some service))))"
    unfolding run others by (simp add: tried_filter)
  show "\<forall>addr. getCurrentIP net (Some service) = Inr addr \<longrightarrow>
          loose_quad addr \<and> trim addr = addr
          \<and> (\<exists>u text. net u = Response True text \<and> addr = trim text)"
    using getCurrentIP_valid ipv4Regex_test_trimmed getCurrentIP_source
      ipv4Regex_test_loose_quad by blast
qed

theorem C3_fallback_order_witness:
  "getCurrentIP_run only_ifconfig (Some ''https://api.ipify.org'')
     = ([''https://api.ipify.org'', ''https://ifconfig.me/ip''], Inr (js ''203.0.113.5''))
   \<and> getCurrentIP_run no_network (Some ''https://icanhazip.com'')
     = ([''https://icanhazip.com'', ''https://api.ipify.org'', ''https://ifconfig.me/ip'',
         ''https://checkip.amazonaws.com''], Inl UnableToDetectIP)"
proof
  have v: "loose_quad (js ''203.0.113.5'')"
    using valid_203 by (simp add: ipv4Regex_test_loose_quad)
  have "accepted loose_quad (only_ifconfig ''https://api.ipify.org'') = None"
    by (simp add: only_ifconfig_def accepted_def)
  from C3_fallback_order[of only_ifconfig "''https://api.ipify.org''", OF this refl]
  show "getCurrentIP_run only_ifconfig (Some ''https://api.ipify.org'')
     = ([''https://api.ipify.org'', ''https://ifconfig.me/ip''], Inr (js ''203.0.113.5''))"
    by (simp add: only_ifconfig_def accepted_def trim_203_newline v)
next
  have "accepted loose_quad (no_network ''https://icanhazip.com'') = None"
    by (simp add: no_network_def accepted_def)
  from C3_fallback_order[of no_network "''https://icanhazip.com''", OF this refl]
  show "getCurrentIP_run no_network (Some ''https://icanhazip.com'')
     = ([''https://icanhazip.com'', ''https://api.ipify.org'', ''https://ifconfig.me/ip'',
         ''https://checkip.amazonaws.com''], Inl UnableToDetectIP)"
    by (simp add: fallbacks_def no_network_def accepted_def)
qed

text \<open>
  C4, as stated, fails: the pattern of the code does not bound an octet by 255.  A
  service answering \<open>999.999.999.999\<close> has its text returned, and that text is no dotted
  quad of octets between 0 and 255.
\<close>

theorem C4_counterexample:
  "getCurrentIP loose_net None = Inr (js ''999.999.999.999'')
   \<and> \<not> dotted_quad (js ''999.999.999.999'')"
proof
  have "trim (js ''999.999.999.999'') = js ''999.999.999.999''"
    using valid_999 by (rule ipv4Regex_test_trimmed)
  then show "getCurrentIP loose_net None = Inr (js ''999.999.999.999'')"
    by (simp add: getCurrentIP_eq try_primary_def loose_net_def valid_999)
next
  show "\<not> dotted_quad (js ''999.999.999.999'')"
    by (simp add: dotted_quad_def octet_def digit_group_def decimal_value_def is_digit_def
          js_def dot_def)
qed

text \<open>
  C4, amended.  When the preferred service answers with a 2xx status, \<open>getCurrentIP\<close>
  returns the trimmed text exactly when it matches \<open>/^(\d{1,3}\.){3}\d{1,3}$/\<close>, that is
  when it consists of four dot-separated groups of one to three decimal digits; so every
  dotted quad of octets between 0 and 255 is returned.  A text that does not match sends
  the call into the fallback loop.
\<close>

theorem C4_validation:
  assumes "net service = Response True text"
  shows "(getCurrentIP net (Some service) = Inr (trim text)) = ipv4Regex_test (trim text)
         \<and> (\<not> ipv4Regex_test (trim text) \<longrightarrow>
              getCurrentIP net (Some service) = try_fallbacks net service fallbacks)
         \<and> ipv4Regex_test (trim text) =
             (\<exists>a b c d. trim text = a @ dot # b @ dot # c @ dot # d \<and>
                digit_group a \<and> digit_group b \<and> digit_group c \<and> digit_group d)
         \<and> (dotted_quad (trim text) \<longrightarrow> getCurrentIP net (Some service) = Inr (trim text))"
proof (intro conjI)
  show "(getCurrentIP net (Some service) = Inr (trim text)) = ipv4Regex_test (trim text)"
  proof
    assume "getCurrentIP net (Some service) = Inr (trim text)"
    then show "ipv4Regex_test (trim text)"
      by (rule getCurrentIP_valid)
  next
    assume "ipv4Regex_test (trim text)"
    with assms show "getCurrentIP net (Some service) = Inr (trim text)"
      by (simp add: getCurrentIP_eq try_primary_def)
  qed
next
  from assms show "\<not> ipv4Regex_test (trim text) \<longrightarrow>
      getCurrentIP net (Some service) = try_fallbacks net service fallbacks"
    by (simp add: getCurrentIP_eq try_primary_def)
next
  show "ipv4Regex_test (trim text) =
          (\<exists>a b c d. trim text = a @ dot # b @ dot # c @ dot # d \<and>
             digit_group a \<and> digit_group b \<and> digit_group c \<and> digit_group d)"
    by (rule ipv4Regex_test_iff)
next
  from assms show "dotted_quad (trim text) \<longrightarrow>
      getCurrentIP net (Some service) = Inr (trim text)"
    by (auto simp: getCurrentIP_eq try_primary_def dest: dotted_quad_matches)
qed

theorem C4_validation_witness:
  "getCurrentIP only_ifconfig (Some ''https://ifconfig.me/ip'') = Inr (js ''203.0.113.5'')"
proof -
  have "only_ifconfig ''https://ifconfig.me/ip'' = Response True (js ''203.0.113.5'' @ [10])"
    by (simp add: only_ifconfig_def)
  from C4_validation[of only_ifconfig "''https://ifconfig.me/ip''", OF this] show ?thesis
    by (simp add: trim_203_newline valid_203)
qed

section \<open>IPv6 resolution\<close>

lemma trim_v6: "trim (js ''2001:db8::1'') = js ''2001:db8::1''"
  by (simp add: trim_def js_def is_ws_def)

lemma colon_v6: "has_colon (js ''2001:db8::1'')"
  by (simp add: has_colon_def js_def colon_def)

text \<open>
  C7, as stated, fails: \<open>getCurrentIPv6\<close> has no fallback loop.  With the preferred
  service unreachable and every other service answering a valid address, it returns
  \<open>null\<close>, where the strategy of \<open>getCurrentIP\<close> over the same list finds an address.
\<close>

theorem C7_counterexample:
  "getCurrentIPv6 v6_elsewhere None = Inr None
   \<and> identical_strategy6 fallbacks v6_elsewhere ''https://api6.ipify.org''
       = Some (js ''2001:db8::1'')"
proof
  show "getCurrentIPv6 v6_elsewhere None = Inr None"
    by (simp add: getCurrentIPv6_def try_ipv6_def v6_elsewhere_def)
next
  have "accepted has_colon (v6_elsewhere ''https://api.ipify.org'') = Some (js ''2001:db8::1'')"
    by (simp add: accepted_def v6_elsewhere_def trim_v6 colon_v6)
  moreover have "accepted has_colon (v6_elsewhere ''https://api6.ipify.org'') = None"
    by (simp add: accepted_def v6_elsewhere_def)
  ultimately show "identical_strategy6 fallbacks v6_elsewhere ''https://api6.ipify.org''
       = Some (js ''2001:db8::1'')"
    by (simp add: identical_strategy6_def fallbacks_def)
qed

text \<open>
  C7, amended.  \<open>getCurrentIPv6\<close> asks one service only, the one it is given (by default
  \<open>https://api6.ipify.org\<close>), and never throws: it returns the trimmed text when the
  reply has a 2xx status and the text contains a colon, and \<open>null\<close> in every other case.
\<close>

theorem C7_soft_single_service:
  "getCurrentIPv6 net arg =
     Inr (accepted has_colon
            (net (case arg of None \<Rightarrow> ''https://api6.ipify.org'' | Some u \<Rightarrow> u)))"
  by (simp add: getCurrentIPv6_def try_ipv6_def accepted_def has_colon_def
        split: response.splits option.splits)

section \<open>The single-shot tick\<close>

lemma sent_dispatch: "sent (dispatch w fs body cur) = [body]"
  by (simp add: dispatch_def split: api_reply.splits api_body.splits)

lemma status_dispatch: "status (dispatch w fs body cur) \<noteq> Unchanged a"
  by (simp add: dispatch_def split: api_reply.splits api_body.splits)

lemma getCurrentIPv6_nonempty: "getCurrentIPv6 net arg = Inr (Some a) \<Longrightarrow> a \<noteq> []"
  by (auto simp: getCurrentIPv6_def try_ipv6_def Let_def
           split: response.splits if_splits sum.splits)

lemma truthy_catch_null6:
  "truthy (catch_null6 (getCurrentIPv6 net arg)) = (catch_null6 (getCurrentIPv6 net arg) \<noteq> None)"
proof (cases "getCurrentIPv6 net arg")
  case (Inl err)
  then show ?thesis by (simp add: catch_null6_def)
next
  case (Inr b)
  then show ?thesis
    by (cases b) (auto simp: catch_null6_def dest: getCurrentIPv6_nonempty)
qed

lemma truthy_catch_null:
  "truthy (catch_null (getCurrentIP net arg)) = (catch_null (getCurrentIP net arg) \<noteq> None)"
  by (cases "getCurrentIP net arg")
     (auto simp: catch_null_def dest: getCurrentIP_valid ipv4Regex_test_nonempty)

lemma steady_v4: "getCurrentIP steady_net None = Inr (js ''203.0.113.5'')"
proof -
  have "trim (js ''203.0.113.5'') = js ''203.0.113.5''"
    using valid_203 by (rule ipv4Regex_test_trimmed)
  then show ?thesis
    by (simp add: getCurrentIP_eq try_primary_def steady_net_def valid_203)
qed

lemma steady_v6: "getCurrentIPv6 steady_net None = Inr (Some (js ''2001:db8::1''))"
  using colon_v6
  by (simp add: getCurrentIPv6_def try_ipv6_def steady_net_def trim_v6 has_colon_def)

lemma load_known: "loadLastIP known_files = Some (js ''203.0.113.5'')"
proof -
  have "trim (js ''203.0.113.5'') = js ''203.0.113.5''"
    using valid_203 by (rule ipv4Regex_test_trimmed)
  then show ?thesis
    by (simp add: loadLastIP_def known_files_def)
qed

text \<open>
  C1, as stated for every tick, fails in two places.  A forced tick whose detection
  services are all unreachable ends with "no IP detected" and sends nothing.  And a tick
  with nothing stored, IPv4 unresolved and IPv6 resolved compares \<open>null\<close> with \<open>null\<close>: it
  reports "unchanged" and sends nothing although no prior state exists.
\<close>

theorem C1_counterexample:
  "runUpdate True home_cfg dark_world known_files
     = \<lparr>sent = [], disk = known_files, status = NoIPDetected\<rparr>
   \<and> loadLastIP no_files = None
   \<and> runUpdate False dual_cfg v6_only_world no_files
     = \<lparr>sent = [], disk = no_files, status = Unchanged None\<rparr>"
proof (intro conjI)
  have "acquire_config home_cfg dark_world = Some home_cfg"
    by (simp add: acquire_config_def home_cfg_def)
  moreover have "getCurrentIP (providers dark_world) (ipService home_cfg) = Inl UnableToDetectIP"
    by (simp add: dark_world_def home_cfg_def no_network_def getCurrentIP_eq
          try_primary_def fallbacks_def)
  ultimately show "runUpdate True home_cfg dark_world known_files
     = \<lparr>sent = [], disk = known_files, status = NoIPDetected\<rparr>"
    by (simp add: runUpdate_def catch_null_def Let_def home_cfg_def)
next
  show none: "loadLastIP no_files = None"
    by (simp add: loadLastIP_def no_files_def)
  have "acquire_config dual_cfg v6_only_world = Some dual_cfg"
    by (simp add: acquire_config_def dual_cfg_def home_cfg_def)
  moreover have "getCurrentIP (providers v6_only_world) (ipService dual_cfg)
      = Inl UnableToDetectIP"
    by (simp add: v6_only_world_def calm_world_def dual_cfg_def home_cfg_def
          v6_only_net_def getCurrentIP_eq try_primary_def fallbacks_def)
  moreover have "getCurrentIPv6 (providers6 v6_only_world) (ipv6Service dual_cfg)
      = Inr (Some (js ''2001:db8::1''))"
    using colon_v6
    by (simp add: v6_only_world_def calm_world_def dual_cfg_def home_cfg_def
          v6_only_net_def getCurrentIPv6_def try_ipv6_def trim_v6 has_colon_def)
  ultimately show "runUpdate False dual_cfg v6_only_world no_files
     = \<lparr>sent = [], disk = no_files, status = Unchanged None\<rparr>"
    using none
    by (simp add: runUpdate_def catch_null_def catch_null6_def Let_def dual_cfg_def
          home_cfg_def js_def)
qed

text \<open>
  C1, amended.  In a single-shot tick that has its configuration and resolves an IPv4
  address, the outcome is "unchanged" exactly when the state file holds an address equal
  to the resolved one and \<open>--force\<close> was not given, and then no request is sent; when no
  address is stored, or the stored one differs, or \<open>--force\<close> was given, one request
  carrying the resolved address is sent.  A tick that resolves no address at all ends
  with "no IP detected" and sends nothing, forced or not.
\<close>

theorem C1_reconciliation:
  assumes "acquire_config cfg0 w = Some cfg"
  shows "(\<forall>addr. getCurrentIP (providers w) (ipService cfg) = Inr addr \<longrightarrow>
            ((\<exists>a. status (runUpdate force cfg0 w fs) = Unchanged a)
               = (loadLastIP fs = Some addr \<and> \<not> force))
          \<and> (loadLastIP fs = Some addr \<and> \<not> force \<longrightarrow>
               sent (runUpdate force cfg0 w fs) = [])
          \<and> (loadLastIP fs = None \<or> (\<exists>old. loadLastIP fs = Some old \<and> old \<noteq> addr) \<or> force
               \<longrightarrow> (\<exists>q. sent (runUpdate force cfg0 w fs) = [q] \<and> req_ip q = Some addr)))
       \<and> (catch_null (getCurrentIP (providers w) (ipService cfg)) = None
            \<and> (if useIPv6 cfg
                then catch_null6 (getCurrentIPv6 (providers6 w) (ipv6Service cfg))
                else None) = None
          \<longrightarrow> runUpdate force cfg0 w fs = \<lparr>sent = [], disk = fs, status = NoIPDetected\<rparr>)"
proof (intro conjI allI impI)
  fix addr
  assume ip: "getCurrentIP (providers w) (ipService cfg) = Inr addr"
  have ne: "addr \<noteq> []"
    using ip getCurrentIP_valid ipv4Regex_test_nonempty by blast
  have "((\<exists>a. status (runUpdate force cfg0 w fs) = Unchanged a)
               = (loadLastIP fs = Some addr \<and> \<not> force))
          \<and> (loadLastIP fs = Some addr \<and> \<not> force \<longrightarrow>
               sent (runUpdate force cfg0 w fs) = [])
          \<and> (loadLastIP fs = None \<or> (\<exists>old. loadLastIP fs = Some old \<and> old \<noteq> addr) \<or> force
               \<longrightarrow> (\<exists>q. sent (runUpdate force cfg0 w fs) = [q] \<and> req_ip q = Some addr))"
  proof (cases "\<not> force \<and> loadLastIP fs = Some addr")
    case True
    then have "runUpdate force cfg0 w fs =
                 \<lparr>sent = [], disk = fs, status = Unchanged (Some addr)\<rparr>"
      using assms ip ne by (simp add: runUpdate_def catch_null_def Let_def)
    with True show ?thesis by auto
  next
    case False
    then have "\<exists>body. runUpdate force cfg0 w fs = dispatch w fs body (Some addr)
                 \<and> req_ip body = Some addr"
      using assms ip ne by (auto simp: runUpdate_def catch_null_def Let_def)
    then obtain body where
      r: "runUpdate force cfg0 w fs = dispatch w fs body (Some addr)" and
      b: "req_ip body = Some addr"
      by blast
    have "sent (runUpdate force cfg0 w fs) = [body]"
      by (simp add: r sent_dispatch)
    moreover have "\<not> (\<exists>a. status (runUpdate force cfg0 w fs) = Unchanged a)"
      by (simp add: r status_dispatch)
    ultimately show ?thesis
      using False b by auto
  qed
  then show "(\<exists>a. status (runUpdate force cfg0 w fs) = Unchanged a)
               = (loadLastIP fs = Some addr \<and> \<not> force)"
    and "loadLastIP fs = Some addr \<and> \<not> force \<Longrightarrow> sent (runUpdate force cfg0 w fs) = []"
    and "loadLastIP fs = None \<or> (\<exists>old. loadLastIP fs = Some old \<and> old \<noteq> addr) \<or> force
               \<Longrightarrow> \<exists>q. sent (runUpdate force cfg0 w fs) = [q] \<and> req_ip q = Some addr"
    by blast+
next
  assume "catch_null (getCurrentIP (providers w) (ipService cfg)) = None
            \<and> (if useIPv6 cfg
                then catch_null6 (getCurrentIPv6 (providers6 w) (ipv6Service cfg))
                else None) = None"
  then show "runUpdate force cfg0 w fs = \<lparr>sent = [], disk = fs, status = NoIPDetected\<rparr>"
    using assms by (auto simp: runUpdate_def Let_def)
qed

theorem C1_reconciliation_witness:
  "sent (runUpdate False home_cfg calm_world known_files) = []
   \<and> sent (runUpdate True home_cfg calm_world known_files) \<noteq> []
   \<and> sent (runUpdate False home_cfg calm_world no_files) \<noteq> []"
proof -
  have cfg: "acquire_config home_cfg calm_world = Some home_cfg"
    by (simp add: acquire_config_def home_cfg_def)
  have ip: "getCurrentIP (providers calm_world) (ipService home_cfg) = Inr (js ''203.0.113.5'')"
    by (simp add: calm_world_def home_cfg_def steady_v4)
  have none: "loadLastIP no_files = None"
    by (simp add: loadLastIP_def no_files_def)
  from C1_reconciliation[OF cfg, where force = False and fs = known_files]
       C1_reconciliation[OF cfg, where force = True and fs = known_files]
       C1_reconciliation[OF cfg, where force = False and fs = no_files]
  show ?thesis
    using ip load_known none by auto
qed

text \<open>
  C6, as stated, fails: there is no IPv6 decision.  With the stored IPv4 address current
  and an IPv6 address resolved for which nothing is stored (a first run for that family,
  "changed" for the Reconciler of the specification), \<open>runUpdate\<close> sends nothing.
\<close>

theorem C6_counterexample:
  "catch_null6 (getCurrentIPv6 (providers6 calm_world) (ipv6Service dual_cfg))
     = Some (js ''2001:db8::1'')
   \<and> reconcile False (loadLastIPv6 known_files) (js ''2001:db8::1'') = DecideChanged
   \<and> sent (runUpdate False dual_cfg calm_world known_files) = []"
proof (intro conjI)
  show v6: "catch_null6 (getCurrentIPv6 (providers6 calm_world) (ipv6Service dual_cfg))
     = Some (js ''2001:db8::1'')"
    by (simp add: calm_world_def dual_cfg_def home_cfg_def steady_v6 catch_null6_def)
  show "reconcile False (loadLastIPv6 known_files) (js ''2001:db8::1'') = DecideChanged"
    by (simp add: reconcile_def loadLastIPv6_def known_files_def)
  have "acquire_config dual_cfg calm_world = Some dual_cfg"
    by (simp add: acquire_config_def dual_cfg_def home_cfg_def)
  moreover have "catch_null (getCurrentIP (providers calm_world) (ipService dual_cfg))
      = Some (js ''203.0.113.5'')"
    by (simp add: calm_world_def dual_cfg_def home_cfg_def steady_v4 catch_null_def)
  ultimately show "sent (runUpdate False dual_cfg calm_world known_files) = []"
    using load_known by (simp add: runUpdate_def Let_def)
qed

text \<open>
  C6, amended.  A single-shot tick makes no IPv6 decision: the stored IPv6 address is
  never read.  When an IPv4 address was resolved, a request is sent exactly when
  \<open>--force\<close> was given or the stored IPv4 address is not the resolved one, whatever the
  IPv6 address.  When IPv4 resolution failed and either \<open>--force\<close> was given or an IPv4
  address is stored, a request is sent exactly when an IPv6 address was resolved.  The
  tick sends at most one request, which carries the resolved IPv4 value (\<open>null\<close> if there
  is none) and, if IPv6 is enabled and resolved, the IPv6 address.
\<close>

theorem C6_single_request:
  assumes "acquire_config cfg0 w = Some cfg"
      and "v4 = catch_null (getCurrentIP (providers w) (ipService cfg))"
      and "v6 = (if useIPv6 cfg
                 then catch_null6 (getCurrentIPv6 (providers6 w) (ipv6Service cfg)) else None)"
  shows "sent (runUpdate force cfg0 w (fs\<lparr>ipv6_file := stored6\<rparr>)) = sent (runUpdate force cfg0 w fs)
       \<and> status (runUpdate force cfg0 w (fs\<lparr>ipv6_file := stored6\<rparr>))
           = status (runUpdate force cfg0 w fs)
       \<and> (v4 \<noteq> None \<longrightarrow>
            (sent (runUpdate force cfg0 w fs) \<noteq> []) = (force \<or> loadLastIP fs \<noteq> v4))
       \<and> (v4 = None \<and> (force \<or> loadLastIP fs \<noteq> None) \<longrightarrow>
            (sent (runUpdate force cfg0 w fs) \<noteq> []) = (v6 \<noteq> None))
       \<and> (sent (runUpdate force cfg0 w fs) = [] \<or>
          sent (runUpdate force cfg0 w fs) =
            [\<lparr>req_name = domain cfg, req_ip = v4, req_ttl = ttl cfg, req_ipv6 = v6,
              req_bearer = apiToken cfg\<rparr>])"
proof -
  have t4: "truthy v4 = (v4 \<noteq> None)"
    unfolding assms(2) by (rule truthy_catch_null)
  have t6: "truthy v6 = (v6 \<noteq> None)"
    unfolding assms(3) by (simp add: truthy_catch_null6)
  have same: "loadLastIP (fs\<lparr>ipv6_file := stored6\<rparr>) = loadLastIP fs"
    by (simp add: loadLastIP_def)
  have run: "\<And>fs'. runUpdate force cfg0 w fs' =
      (if \<not> truthy v4 \<and> \<not> truthy v6 then \<lparr>sent = [], disk = fs', status = NoIPDetected\<rparr>
       else if \<not> force \<and> loadLastIP fs' = v4
       then \<lparr>sent = [], disk = fs', status = Unchanged v4\<rparr>
       else dispatch w fs'
              \<lparr>req_name = domain cfg, req_ip = v4, req_ttl = ttl cfg,
               req_ipv6 = (if truthy v6 then v6 else None), req_bearer = apiToken cfg\<rparr> v4)"
    using assms by (simp add: runUpdate_def Let_def)
  have v6': "(if truthy v6 then v6 else None) = v6"
    using t6 by simp
  have st: "\<And>fs1 fs2 body cur. status (dispatch w fs1 body cur) = status (dispatch w fs2 body cur)"
    by (simp add: dispatch_def split: api_reply.splits api_body.splits)
  show ?thesis
    unfolding run same v6'
    using t4 t6 st[of "fs\<lparr>ipv6_file := stored6\<rparr>" _ _ fs]
    by (auto simp: sent_dispatch)
qed

theorem C6_single_request_witness:
  "sent (runUpdate False dual_cfg calm_world older_files) =
     [\<lparr>req_name = Some ''home.example.org'', req_ip = Some (js ''203.0.113.5''),
       req_ttl = Some 300, req_ipv6 = Some (js ''2001:db8::1''), req_bearer = Some ''token''\<rparr>]
   \<and> sent (runUpdate False dual_cfg v6_only_world older_files) =
     [\<lparr>req_name = Some ''home.example.org'', req_ip = None,
       req_ttl = Some 300, req_ipv6 = Some (js ''2001:db8::1''), req_bearer = Some ''token''\<rparr>]"
proof
  have cfg: "acquire_config dual_cfg calm_world = Some dual_cfg"
    by (simp add: acquire_config_def dual_cfg_def home_cfg_def)
  have v4: "Some (js ''203.0.113.5'')
      = catch_null (getCurrentIP (providers calm_world) (ipService dual_cfg))"
    by (simp add: calm_world_def dual_cfg_def home_cfg_def steady_v4 catch_null_def)
  have v6: "Some (js ''2001:db8::1'')
      = (if useIPv6 dual_cfg
         then catch_null6 (getCurrentIPv6 (providers6 calm_world) (ipv6Service dual_cfg))
         else None)"
    by (simp add: calm_world_def dual_cfg_def home_cfg_def steady_v6 catch_null6_def)
  have old: "loadLastIP older_files \<noteq> Some (js ''203.0.113.5'')"
    by (simp add: loadLastIP_def older_files_def trim_def js_def is_ws_def)
  from C6_single_request[OF cfg v4 v6, where force = False and fs = older_files] old
  show "sent (runUpdate False dual_cfg calm_world older_files) =
     [\<lparr>req_name = Some ''home.example.org'', req_ip = Some (js ''203.0.113.5''),
       req_ttl = Some 300, req_ipv6 = Some (js ''2001:db8::1''), req_bearer = Some ''token''\<rparr>]"
    by (auto simp: dual_cfg_def home_cfg_def)
next
  have cfg: "acquire_config dual_cfg v6_only_world = Some dual_cfg"
    by (simp add: acquire_config_def dual_cfg_def home_cfg_def)
  have v4: "None = catch_null (getCurrentIP (providers v6_only_world) (ipService dual_cfg))"
    by (simp add: v6_only_world_def calm_world_def dual_cfg_def home_cfg_def
          v6_only_net_def getCurrentIP_eq try_primary_def fallbacks_def catch_null_def)
  have v6: "Some (js ''2001:db8::1'')
      = (if useIPv6 dual_cfg
         then catch_null6 (getCurrentIPv6 (providers6 v6_only_world) (ipv6Service dual_cfg))
         else None)"
    using colon_v6
    by (simp add: v6_only_world_def calm_world_def dual_cfg_def home_cfg_def
          v6_only_net_def getCurrentIPv6_def try_ipv6_def trim_v6 has_colon_def
          catch_null6_def)
  have old: "loadLastIP older_files \<noteq> None"
    by (simp add: loadLastIP_def older_files_def)
  from C6_single_request[OF cfg v4 v6, where force = False and fs = older_files] old
  show "sent (runUpdate False dual_cfg v6_only_world older_files) =
     [\<lparr>req_name = Some ''home.example.org'', req_ip = None,
       req_ttl = Some 300, req_ipv6 = Some (js ''2001:db8::1''), req_bearer = Some ''token''\<rparr>]"
    by (auto simp: dual_cfg_def home_cfg_def)
qed

section \<open>The daemon tick\<close>

lemma raised_update: "raised (update cfg ts w fs) = None"
  by (simp add: update_def Let_def split: option.splits)

lemma sent_update: "sent (update cfg ts w fs) = sent (update_try cfg ts w fs)"
  by (simp add: update_def Let_def split: option.splits)

lemma disk_update: "disk (update cfg ts w fs) = disk (update_try cfg ts w fs)"
  by (simp add: update_def Let_def split: option.splits)

lemma printed_update:
  "printed (update cfg ts w fs) =
     printed (update_try cfg ts w fs) @
       (case raised (update_try cfg ts w fs) of
          None \<Rightarrow> []
        | Some err \<Rightarrow> [(ts, ErrorMessage err)])"
  by (simp add: update_def Let_def split: option.splits)

lemma printed_update_try_stamped:
  "list_all (\<lambda>l. fst l = ts) (printed (update_try cfg ts w fs))"
  by (simp add: update_try_def Let_def split: api_reply.splits api_body.splits)

lemma printed_update_try_nonempty: "printed (update_try cfg ts w fs) \<noteq> []"
  by (simp add: update_try_def Let_def split: api_reply.splits api_body.splits)

lemma printed_update_try_no_error:
  "(ts', ErrorMessage err) \<notin> set (printed (update_try cfg ts w fs))"
  by (simp add: update_try_def Let_def split: api_reply.splits api_body.splits)

lemma raised_update_try_dispatch:
  "raised (update_try cfg ts w fs) = Some err \<Longrightarrow>
     err \<in> {FetchFailed, JsonSyntaxError, NullTypeError} \<and> sent (update_try cfg ts w fs) \<noteq> []"
  by (auto simp: update_try_def Let_def split: api_reply.splits api_body.splits if_splits)

lemma length_run_ticks: "length (run_ticks cfg fs ws) = length ws"
proof (induction ws arbitrary: fs)
  case Nil
  show ?case by simp
next
  case (Cons tw ws)
  obtain ts w where tw: "tw = (ts, w)"
    by (cases tw)
  show ?case
    using Cons.IH by (simp add: tw Let_def raised_update)
qed

text \<open>The state file changes only behind a 2xx reply, and in the single-shot tick only
  behind a 2xx reply whose body has results.\<close>

lemma runUpdate_saves_only_acknowledged:
  "disk (runUpdate force cfg0 w fs) \<noteq> fs \<Longrightarrow> api w = ApiResponse True (JsonValue True)"
  by (auto simp: runUpdate_def dispatch_def Let_def
           split: option.splits api_reply.splits api_body.splits if_splits)

lemma update_saves_only_2xx:
  "disk (update cfg ts w fs) \<noteq> fs \<Longrightarrow> \<exists>reply. api w = ApiResponse True reply"
  by (auto simp: disk_update update_try_def Let_def
           split: api_reply.splits api_body.splits if_splits)

lemma steady_v4_default:
  "getCurrentIP steady_net (Some ''https://api.ipify.org'') = Inr (js ''203.0.113.5'')"
  using steady_v4 by (simp add: getCurrentIP_eq)

lemma load_older: "loadLastIP older_files = Some (js ''198.51.100.7'')"
proof -
  have "ipv4Regex_test (js ''198.51.100.7'')"
    by (simp add: js_def regex_eval)
  then have "trim (js ''198.51.100.7'') = js ''198.51.100.7''"
    by (rule ipv4Regex_test_trimmed)
  then show ?thesis
    by (simp add: loadLastIP_def older_files_def)
qed

lemma addresses_differ: "js ''198.51.100.7'' \<noteq> js ''203.0.113.5''"
  by (simp add: js_def)

text \<open>
  C2 at its failing input.  The endpoint answers a daemon tick with status 200 and a body
  that is not JSON.  The daemon tick saves the new address, and the next tick, resolving
  the same address, reports it unchanged and sends nothing; the single-shot tick, given
  the same reply, raises and leaves the state file as it was.
\<close>

theorem C2_daemon_saves_unacknowledged:
  "disk (update home_cfg 1 garbled_world older_files)
     = older_files\<lparr>ip_file := Some (js ''203.0.113.5'')\<rparr>
   \<and> update home_cfg 2 garbled_world (older_files\<lparr>ip_file := Some (js ''203.0.113.5'')\<rparr>)
     = \<lparr>sent = [], disk = older_files\<lparr>ip_file := Some (js ''203.0.113.5'')\<rparr>,
        printed = [(2, IPUnchanged (Some (js ''203.0.113.5'')))], raised = None\<rparr>
   \<and> runUpdate False home_cfg garbled_world older_files
     = \<lparr>sent = [\<lparr>req_name = Some ''home.example.org'', req_ip = Some (js ''203.0.113.5''),
                req_ttl = Some 300, req_ipv6 = None, req_bearer = Some ''token''\<rparr>],
        disk = older_files, status = Raised JsonSyntaxError\<rparr>"
proof (intro conjI)
  have net: "providers garbled_world = steady_net"
    by (simp add: garbled_world_def calm_world_def)
  have api: "api garbled_world = ApiResponse True NotJson"
    by (simp add: garbled_world_def calm_world_def)
  have wr: "disk_writable garbled_world"
    by (simp add: garbled_world_def calm_world_def)
  show "disk (update home_cfg 1 garbled_world older_files)
     = older_files\<lparr>ip_file := Some (js ''203.0.113.5'')\<rparr>"
    using addresses_differ
    by (simp add: disk_update update_try_def Let_def net steady_v4_default or_url_def api wr
          load_older catch_null_def saveCurrentIP_def home_cfg_def)
  have "trim (js ''203.0.113.5'') = js ''203.0.113.5''"
    using valid_203 by (rule ipv4Regex_test_trimmed)
  then have "loadLastIP (older_files\<lparr>ip_file := Some (js ''203.0.113.5'')\<rparr>)
      = Some (js ''203.0.113.5'')"
    by (simp add: loadLastIP_def)
  then show "update home_cfg 2 garbled_world (older_files\<lparr>ip_file := Some (js ''203.0.113.5'')\<rparr>)
     = \<lparr>sent = [], disk = older_files\<lparr>ip_file := Some (js ''203.0.113.5'')\<rparr>,
        printed = [(2, IPUnchanged (Some (js ''203.0.113.5'')))], raised = None\<rparr>"
    by (simp add: update_def update_try_def Let_def net steady_v4_default or_url_def
          catch_null_def home_cfg_def)
  have ne: "js ''203.0.113.5'' \<noteq> []"
    using valid_203 by (rule ipv4Regex_test_nonempty)
  show "runUpdate False home_cfg garbled_world older_files
     = \<lparr>sent = [\<lparr>req_name = Some ''home.example.org'', req_ip = Some (js ''203.0.113.5''),
                req_ttl = Some 300, req_ipv6 = None, req_bearer = Some ''token''\<rparr>],
        disk = older_files, status = Raised JsonSyntaxError\<rparr>"
    using addresses_differ ne
    by (simp add: runUpdate_def Let_def acquire_config_def net steady_v4 catch_null_def
          load_older dispatch_def api home_cfg_def)
qed

text \<open>
  C8, as stated, fails for errors of IP resolution: they are turned into \<open>null\<close> where
  \<open>getCurrentIP\<close> is called and are never printed.  With every detection service
  unreachable and nothing stored, the tick prints "IP unchanged" and no error.
\<close>

theorem C8_counterexample:
  "getCurrentIP (providers dark_world) (Some ''https://api.ipify.org'') = Inl UnableToDetectIP
   \<and> printed (update home_cfg 7 dark_world no_files) = [(7, IPUnchanged None)]"
proof
  show ip: "getCurrentIP (providers dark_world) (Some ''https://api.ipify.org'')
      = Inl UnableToDetectIP"
    by (simp add: dark_world_def no_network_def getCurrentIP_eq try_primary_def fallbacks_def)
  have "loadLastIP no_files = None"
    by (simp add: loadLastIP_def no_files_def)
  then show "printed (update home_cfg 7 dark_world no_files) = [(7, IPUnchanged None)]"
    using ip
    by (simp add: update_def update_try_def Let_def catch_null_def home_cfg_def or_url_def)
qed

text \<open>
  C8, amended.  No daemon tick raises: \<open>update\<close> always resolves, having printed at least
  one line, every line behind the tick's timestamp.  An error of IP resolution is not
  raised but becomes a \<open>null\<close> address; every error raised inside the \<open>try\<close> block (they
  all come from the dispatch) is printed as the tick's last line.  So a daemon runs one
  tick for every firing of its timer.
\<close>

theorem C8_tick_never_raises:
  "raised (update cfg ts w fs) = None
   \<and> printed (update cfg ts w fs) \<noteq> []
   \<and> list_all (\<lambda>l. fst l = ts) (printed (update cfg ts w fs))
   \<and> (\<forall>err. raised (update_try cfg ts w fs) = Some err \<longrightarrow>
         sent (update cfg ts w fs) \<noteq> [] \<and>
         last (printed (update cfg ts w fs)) = (ts, ErrorMessage err))
   \<and> length (run_ticks cfg fs ws) = length ws"
  using printed_update_try_stamped[of ts cfg w fs] raised_update_try_dispatch[of cfg ts w fs]
  by (auto simp: raised_update printed_update printed_update_try_nonempty sent_update
        length_run_ticks split: option.splits)

theorem C8_tick_never_raises_witness:
  "last (printed (update home_cfg 7 offline_world older_files)) = (7, ErrorMessage FetchFailed)
   \<and> length (run_ticks home_cfg older_files [(7, offline_world), (8, dark_world)]) = 2"
proof -
  have "raised (update_try home_cfg 7 offline_world older_files) = Some FetchFailed"
    using addresses_differ
    by (simp add: update_try_def Let_def steady_v4_default or_url_def catch_null_def
          load_older home_cfg_def offline_world_def calm_world_def)
  with C8_tick_never_raises[of home_cfg 7 offline_world older_files
         "[(7, offline_world), (8, dark_world)]"]
  show ?thesis by (simp del: run_ticks.simps)
qed

lemma req_bearer_dispatch:
  "\<forall>q \<in> set (sent (dispatch w fs body cur)). req_bearer q = req_bearer body"
  by (simp add: sent_dispatch)

lemma sent_runUpdate_bearer:
  assumes "acquire_config cfg0 w = Some cfg"
  shows "\<forall>q \<in> set (sent (runUpdate force cfg0 w fs)). req_bearer q = apiToken cfg"
  using assms by (auto simp: runUpdate_def Let_def sent_dispatch)

lemma runUpdate_configured:
  assumes "truthy (apiToken cfg0)"
  shows "runUpdate force cfg0 (w\<lparr>prompt_answer := typed, remote_config := rc\<rparr>) fs
         = runUpdate force cfg0 w fs"
proof -
  have fields: "providers (w\<lparr>prompt_answer := typed, remote_config := rc\<rparr>) = providers w"
    "providers6 (w\<lparr>prompt_answer := typed, remote_config := rc\<rparr>) = providers6 w"
    "api (w\<lparr>prompt_answer := typed, remote_config := rc\<rparr>) = api w"
    "disk_writable (w\<lparr>prompt_answer := typed, remote_config := rc\<rparr>) = disk_writable w"
    by simp_all
  have acq: "\<And>w'. acquire_config cfg0 w' = Some cfg0"
    using assms by (simp add: acquire_config_def)
  have disp: "\<And>body cur. dispatch (w\<lparr>prompt_answer := typed, remote_config := rc\<rparr>) fs body cur
      = dispatch w fs body cur"
    unfolding dispatch_def fields by (rule refl)
  show ?thesis
    unfolding runUpdate_def acq fields disp by (rule refl)
qed

lemma runUpdate_jwtToken:
  "runUpdate force (cfg0\<lparr>jwtToken := j\<rparr>) w fs = runUpdate force cfg0 w fs"
proof (cases "truthy (apiToken cfg0)")
  case True
  then have acq: "acquire_config (cfg0\<lparr>jwtToken := j\<rparr>) w = Some (cfg0\<lparr>jwtToken := j\<rparr>)"
    "acquire_config cfg0 w = Some cfg0"
    by (simp_all add: acquire_config_def)
  have fields: "apiToken (cfg0\<lparr>jwtToken := j\<rparr>) = apiToken cfg0"
    "domain (cfg0\<lparr>jwtToken := j\<rparr>) = domain cfg0"
    "ttl (cfg0\<lparr>jwtToken := j\<rparr>) = ttl cfg0"
    "ipService (cfg0\<lparr>jwtToken := j\<rparr>) = ipService cfg0"
    "ipv6Service (cfg0\<lparr>jwtToken := j\<rparr>) = ipv6Service cfg0"
    "useIPv6 (cfg0\<lparr>jwtToken := j\<rparr>) = useIPv6 cfg0"
    by simp_all
  show ?thesis
    unfolding runUpdate_def acq option.case fields by (rule refl)
next
  case False
  then have "acquire_config (cfg0\<lparr>jwtToken := j\<rparr>) w = acquire_config cfg0 w"
    by (simp add: acquire_config_def)
  then show ?thesis
    by (simp add: runUpdate_def)
qed

lemma update_prompt_answer:
  "update cfg ts (w\<lparr>prompt_answer := typed\<rparr>) fs = update cfg ts w fs"
proof -
  have fields: "providers (w\<lparr>prompt_answer := typed\<rparr>) = providers w"
    "api (w\<lparr>prompt_answer := typed\<rparr>) = api w"
    "disk_writable (w\<lparr>prompt_answer := typed\<rparr>) = disk_writable w"
    by simp_all
  have "update_try cfg ts (w\<lparr>prompt_answer := typed\<rparr>) fs = update_try cfg ts w fs"
    unfolding update_try_def fields by (rule refl)
  then show ?thesis
    by (simp add: update_def)
qed

lemma update_jwtToken:
  "update (cfg\<lparr>jwtToken := j\<rparr>) ts w fs = update cfg ts w fs"
proof -
  have fields: "apiToken (cfg\<lparr>jwtToken := j\<rparr>) = apiToken cfg"
    "domain (cfg\<lparr>jwtToken := j\<rparr>) = domain cfg"
    "ttl (cfg\<lparr>jwtToken := j\<rparr>) = ttl cfg"
    "ipService (cfg\<lparr>jwtToken := j\<rparr>) = ipService cfg"
    by simp_all
  have "update_try (cfg\<lparr>jwtToken := j\<rparr>) ts w fs = update_try cfg ts w fs"
    unfolding update_try_def fields by (rule refl)
  then show ?thesis
    by (simp add: update_def)
qed

lemma runUpdate_api_key:
  "runUpdate force cfg0 (w\<lparr>api_key_argument := k, api_key_environment := e\<rparr>) fs
     = runUpdate force cfg0 w fs"
proof -
  have fields: "providers (w\<lparr>api_key_argument := k, api_key_environment := e\<rparr>) = providers w"
    "providers6 (w\<lparr>api_key_argument := k, api_key_environment := e\<rparr>) = providers6 w"
    "api (w\<lparr>api_key_argument := k, api_key_environment := e\<rparr>) = api w"
    "disk_writable (w\<lparr>api_key_argument := k, api_key_environment := e\<rparr>) = disk_writable w"
    "remote_config (w\<lparr>api_key_argument := k, api_key_environment := e\<rparr>) = remote_config w"
    "prompt_answer (w\<lparr>api_key_argument := k, api_key_environment := e\<rparr>) = prompt_answer w"
    by simp_all
  have disp: "\<And>body cur.
      dispatch (w\<lparr>api_key_argument := k, api_key_environment := e\<rparr>) fs body cur
      = dispatch w fs body cur"
    unfolding dispatch_def fields by (rule refl)
  show ?thesis
    unfolding runUpdate_def acquire_config_def fields disp by (rule refl)
qed

lemma update_api_key:
  "update cfg ts (w\<lparr>api_key_argument := k, api_key_environment := e\<rparr>) fs = update cfg ts w fs"
proof -
  have fields: "providers (w\<lparr>api_key_argument := k, api_key_environment := e\<rparr>) = providers w"
    "api (w\<lparr>api_key_argument := k, api_key_environment := e\<rparr>) = api w"
    "disk_writable (w\<lparr>api_key_argument := k, api_key_environment := e\<rparr>) = disk_writable w"
    by simp_all
  have "update_try cfg ts (w\<lparr>api_key_argument := k, api_key_environment := e\<rparr>) fs
      = update_try cfg ts w fs"
    unfolding update_try_def fields by (rule refl)
  then show ?thesis
    by (simp add: update_def)
qed

lemma sent_update_bearer:
  "\<forall>q \<in> set (sent (update cfg ts w fs)). req_bearer q = apiToken cfg \<and> truthy (apiToken cfg)"
  by (auto simp: sent_update update_try_def Let_def
        split: api_reply.splits api_body.splits if_splits)

lemma getAuthToken_first_present:
  "snd (getAuthToken useApiKey env_key cfg answer) =
     (case first_present [useApiKey, env_key, jwtToken cfg, apiToken cfg] of
        Some t \<Rightarrow> Some t
      | None \<Rightarrow> Some answer)"
  by (cases useApiKey; cases env_key; cases "jwtToken cfg"; cases "apiToken cfg")
     (simp_all add: getAuthToken_def)

text \<open>
  C9, as stated, fails for both ticks.  A daemon tick with no credential anywhere does not
  fail with an error: it prints the change of address, sends nothing and resolves.  A
  single-shot tick started with \<open>--api-key\<close>, with the environment key set and with a
  persisted JWT, but with no \<open>apiToken\<close>, uses none of them, although the argument is the
  first credential present in the claimed order: it prompts, and when no remote
  configuration is found for the typed token it ends with "configuration not found".
\<close>

theorem C9_counterexample:
  "first_present [api_key_argument calm_world, api_key_environment calm_world,
       jwtToken anonymous_cfg, apiToken anonymous_cfg] = None
   \<and> update anonymous_cfg 7 calm_world older_files
     = \<lparr>sent = [], disk = older_files,
        printed = [(7, IPChanged (Some (js ''198.51.100.7'')) (Some (js ''203.0.113.5'')))],
        raised = None\<rparr>
   \<and> first_present [api_key_argument keyed_world, api_key_environment keyed_world,
       jwtToken jwt_cfg, apiToken jwt_cfg] = Some ''key''
   \<and> runUpdate False jwt_cfg keyed_world older_files
     = \<lparr>sent = [], disk = older_files, status = ConfigNotFound\<rparr>"
proof (intro conjI)
  show "first_present [api_key_argument calm_world, api_key_environment calm_world,
       jwtToken anonymous_cfg, apiToken anonymous_cfg] = None"
    by (simp add: calm_world_def anonymous_cfg_def home_cfg_def)
  show "update anonymous_cfg 7 calm_world older_files
     = \<lparr>sent = [], disk = older_files,
        printed = [(7, IPChanged (Some (js ''198.51.100.7'')) (Some (js ''203.0.113.5'')))],
        raised = None\<rparr>"
    using addresses_differ
    by (simp add: update_def update_try_def Let_def steady_v4_default or_url_def
          catch_null_def load_older anonymous_cfg_def home_cfg_def calm_world_def)
  show "first_present [api_key_argument keyed_world, api_key_environment keyed_world,
       jwtToken jwt_cfg, apiToken jwt_cfg] = Some ''key''"
    by (simp add: keyed_world_def calm_world_def)
  show "runUpdate False jwt_cfg keyed_world older_files
     = \<lparr>sent = [], disk = older_files, status = ConfigNotFound\<rparr>"
    by (simp add: runUpdate_def acquire_config_def jwt_cfg_def anonymous_cfg_def
          home_cfg_def keyed_world_def calm_world_def)
qed

text \<open>
  C9, amended.  Neither tick resolves its credential in the claimed order.  The
  single-shot tick uses \<open>config.apiToken\<close> when it is non-empty, and then reads no prompt
  and no remote configuration; otherwise it uses the token typed at a prompt, which has
  no guard, and with no remote configuration found for it the tick ends with
  "configuration not found" and sends nothing.  The daemon tick uses \<open>config.apiToken\<close>
  only and never reads a prompt; without a token or without a domain it sends nothing
  and raises nothing.  Neither tick reads the \<open>--api-key\<close> argument, the environment key
  or \<open>config.jwtToken\<close>.  The order argument, environment key, \<open>config.jwtToken\<close>,
  \<open>config.apiToken\<close>, then the prompt is that of \<open>getAuthToken\<close>, which neither tick
  calls.
\<close>

theorem C9_tick_credentials:
  "(truthy (apiToken cfg0) \<longrightarrow>
      runUpdate force cfg0 (w\<lparr>prompt_answer := typed, remote_config := rc\<rparr>) fs
        = runUpdate force cfg0 w fs
      \<and> (\<forall>q \<in> set (sent (runUpdate force cfg0 w fs)). req_bearer q = apiToken cfg0))
   \<and> (\<not> truthy (apiToken cfg0) \<longrightarrow>
      (remote_config w = None \<longrightarrow>
         runUpdate force cfg0 w fs = \<lparr>sent = [], disk = fs, status = ConfigNotFound\<rparr>)
      \<and> (\<forall>q \<in> set (sent (runUpdate force cfg0 w fs)). req_bearer q = Some (prompt_answer w)))
   \<and> runUpdate force (cfg0\<lparr>jwtToken := j\<rparr>) w fs = runUpdate force cfg0 w fs
   \<and> runUpdate force cfg0 (w\<lparr>api_key_argument := k, api_key_environment := e\<rparr>) fs
       = runUpdate force cfg0 w fs
   \<and> update cfg ts (w\<lparr>api_key_argument := k, api_key_environment := e\<rparr>) fs
       = update cfg ts w fs
   \<and> update cfg ts (w\<lparr>prompt_answer := typed\<rparr>) fs = update cfg ts w fs
   \<and> update (cfg\<lparr>jwtToken := j\<rparr>) ts w fs = update cfg ts w fs
   \<and> (\<forall>q \<in> set (sent (update cfg ts w fs)). req_bearer q = apiToken cfg \<and> truthy (apiToken cfg))
   \<and> (\<not> (truthy (apiToken cfg) \<and> truthy (domain cfg)) \<longrightarrow>
        sent (update cfg ts w fs) = [] \<and> raised (update_try cfg ts w fs) = None)
   \<and> snd (getAuthToken useApiKey env_key cfg answer) =
        (case first_present [useApiKey, env_key, jwtToken cfg, apiToken cfg] of
           Some t \<Rightarrow> Some t
         | None \<Rightarrow> Some answer)"
proof (intro conjI impI)
  assume t: "truthy (apiToken cfg0)"
  then show "runUpdate force cfg0 (w\<lparr>prompt_answer := typed, remote_config := rc\<rparr>) fs
        = runUpdate force cfg0 w fs"
    by (rule runUpdate_configured)
  have "acquire_config cfg0 w = Some cfg0"
    using t by (simp add: acquire_config_def)
  then show "\<forall>q \<in> set (sent (runUpdate force cfg0 w fs)). req_bearer q = apiToken cfg0"
    by (rule sent_runUpdate_bearer)
next
  assume "\<not> truthy (apiToken cfg0)" and "remote_config w = None"
  then show "runUpdate force cfg0 w fs = \<lparr>sent = [], disk = fs, status = ConfigNotFound\<rparr>"
    by (simp add: runUpdate_def acquire_config_def)
next
  assume f: "\<not> truthy (apiToken cfg0)"
  show "\<forall>q \<in> set (sent (runUpdate force cfg0 w fs)). req_bearer q = Some (prompt_answer w)"
  proof (cases "remote_config w")
    case None
    with f show ?thesis
      by (simp add: runUpdate_def acquire_config_def)
  next
    case (Some remoteConfig)
    with f have "acquire_config cfg0 w
        = Some (remoteConfig\<lparr>apiToken := Some (prompt_answer w)\<rparr>)"
      by (simp add: acquire_config_def)
    from sent_runUpdate_bearer[OF this] show ?thesis
      by simp
  qed
next
  show "runUpdate force (cfg0\<lparr>jwtToken := j\<rparr>) w fs = runUpdate force cfg0 w fs"
    by (rule runUpdate_jwtToken)
  show "runUpdate force cfg0 (w\<lparr>api_key_argument := k, api_key_environment := e\<rparr>) fs
       = runUpdate force cfg0 w fs"
    by (rule runUpdate_api_key)
  show "update cfg ts (w\<lparr>api_key_argument := k, api_key_environment := e\<rparr>) fs
       = update cfg ts w fs"
    by (rule update_api_key)
  show "update cfg ts (w\<lparr>prompt_answer := typed\<rparr>) fs = update cfg ts w fs"
    by (rule update_prompt_answer)
  show "update (cfg\<lparr>jwtToken := j\<rparr>) ts w fs = update cfg ts w fs"
    by (rule update_jwtToken)
  show "\<forall>q \<in> set (sent (update cfg ts w fs)). req_bearer q = apiToken cfg \<and> truthy (apiToken cfg)"
    by (rule sent_update_bearer)
  show "snd (getAuthToken useApiKey env_key cfg answer) =
        (case first_present [useApiKey, env_key, jwtToken cfg, apiToken cfg] of
           Some t \<Rightarrow> Some t
         | None \<Rightarrow> Some answer)"
    by (rule getAuthToken_first_present)
next
  assume "\<not> (truthy (apiToken cfg) \<and> truthy (domain cfg))"
  then show "sent (update cfg ts w fs) = []"
    by (auto simp: sent_update update_try_def Let_def)
next
  assume "\<not> (truthy (apiToken cfg) \<and> truthy (domain cfg))"
  then show "raised (update_try cfg ts w fs) = None"
    by (auto simp: update_try_def Let_def)
qed

theorem C9_tick_credentials_witness:
  "sent (runUpdate False home_cfg calm_world older_files) =
     [\<lparr>req_name = Some ''home.example.org'', req_ip = Some (js ''203.0.113.5''),
       req_ttl = Some 300, req_ipv6 = None, req_bearer = Some ''token''\<rparr>]
   \<and> runUpdate False anonymous_cfg calm_world older_files
       = \<lparr>sent = [], disk = older_files, status = ConfigNotFound\<rparr>
   \<and> sent (update anonymous_cfg 7 calm_world older_files) = []
   \<and> snd (getAuthToken None (Some ''env'') home_cfg ''typed'') = Some ''env''"
proof (intro conjI)
  have tok: "truthy (apiToken home_cfg)"
    by (simp add: home_cfg_def)
  have sent: "sent (runUpdate False home_cfg calm_world older_files) =
     [\<lparr>req_name = Some ''home.example.org'', req_ip = Some (js ''203.0.113.5''),
       req_ttl = Some 300, req_ipv6 = None, req_bearer = None\<rparr>
      \<lparr>req_bearer := apiToken home_cfg\<rparr>]"
  proof -
    have ne: "js ''203.0.113.5'' \<noteq> []"
      using valid_203 by (rule ipv4Regex_test_nonempty)
    show ?thesis
      using addresses_differ ne
      by (simp add: runUpdate_def Let_def acquire_config_def calm_world_def steady_v4
            catch_null_def load_older sent_dispatch home_cfg_def)
  qed
  from C9_tick_credentials[where cfg0 = home_cfg and force = False and w = calm_world
         and fs = older_files] tok sent
  show "sent (runUpdate False home_cfg calm_world older_files) =
     [\<lparr>req_name = Some ''home.example.org'', req_ip = Some (js ''203.0.113.5''),
       req_ttl = Some 300, req_ipv6 = None, req_bearer = Some ''token''\<rparr>]"
    by (simp add: home_cfg_def)
next
  have "\<not> truthy (apiToken anonymous_cfg)" and "remote_config calm_world = None"
    by (simp_all add: anonymous_cfg_def home_cfg_def calm_world_def)
  with C9_tick_credentials[where cfg0 = anonymous_cfg and force = False and w = calm_world
         and fs = older_files]
  show "runUpdate False anonymous_cfg calm_world older_files
       = \<lparr>sent = [], disk = older_files, status = ConfigNotFound\<rparr>"
    by simp
next
  have "\<not> (truthy (apiToken anonymous_cfg) \<and> truthy (domain anonymous_cfg))"
    by (simp add: anonymous_cfg_def home_cfg_def)
  with C9_tick_credentials[where cfg = anonymous_cfg and ts = 7 and w = calm_world
         and fs = older_files]
  show "sent (update anonymous_cfg 7 calm_world older_files) = []"
    by simp
next
  from C9_tick_credentials[where useApiKey = None and env_key = "Some ''env''"
         and cfg = home_cfg and answer = "''typed''"]
  show "snd (getAuthToken None (Some ''env'') home_cfg ''typed'') = Some ''env''"
    by (simp add: home_cfg_def)
qed

text \<open>
  C10, as stated, fails without credentials: a daemon with no token, whose detection
  services all fail while an address is stored, prints the change to \<open>null\<close> and
  dispatches nothing.
\<close>

theorem C10_counterexample:
  "update anonymous_cfg 7 dark_world older_files
     = \<lparr>sent = [], disk = older_files,
        printed = [(7, IPChanged (Some (js ''198.51.100.7'')) None)], raised = None\<rparr>"
proof -
  have "getCurrentIP no_network (Some ''https://api.ipify.org'') = Inl UnableToDetectIP"
    by (simp add: no_network_def getCurrentIP_eq try_primary_def fallbacks_def)
  then show ?thesis
    by (simp add: update_def update_try_def Let_def or_url_def catch_null_def load_older
          anonymous_cfg_def home_cfg_def dark_world_def calm_world_def)
qed

text \<open>
  C10, amended.  In a daemon tick, when every detection service fails and an address is
  stored, the tick prints a change from the stored address to \<open>null\<close>, prints no error
  for the failed resolution and resolves; when a token and a domain are configured it
  posts one request whose \<open>ip\<close> is \<open>null\<close>, and otherwise it posts nothing.
\<close>

theorem C10_null_address_dispatched:
  assumes "getCurrentIP (providers w) (Some (or_url (ipService cfg) ''https://api.ipify.org''))
             = Inl err"
      and "loadLastIP fs = Some old"
  shows "hd (printed (update cfg ts w fs)) = (ts, IPChanged (Some old) None)
       \<and> (ts, ErrorMessage err) \<notin> set (printed (update cfg ts w fs))
       \<and> raised (update cfg ts w fs) = None
       \<and> sent (update cfg ts w fs) =
           (if truthy (apiToken cfg) \<and> truthy (domain cfg)
            then [\<lparr>req_name = domain cfg, req_ip = None, req_ttl = Some (or_int (ttl cfg) 300),
                   req_ipv6 = None, req_bearer = apiToken cfg\<rparr>]
            else [])"
proof -
  have e: "err = UnableToDetectIP"
    using assms(1) by (rule getCurrentIP_error)
  have hd: "hd (printed (update_try cfg ts w fs)) = (ts, IPChanged (Some old) None)"
    using assms
    by (simp add: update_try_def Let_def catch_null_def split: api_reply.splits api_body.splits)
  have "raised (update_try cfg ts w fs) \<noteq> Some err"
    using raised_update_try_dispatch[of cfg ts w fs err] e by auto
  then have "(ts, ErrorMessage err) \<notin> set (printed (update cfg ts w fs))"
    by (auto simp: printed_update printed_update_try_no_error split: option.splits)
  moreover have "hd (printed (update cfg ts w fs)) = (ts, IPChanged (Some old) None)"
    using hd by (simp add: printed_update printed_update_try_nonempty)
  moreover have "sent (update cfg ts w fs) =
           (if truthy (apiToken cfg) \<and> truthy (domain cfg)
            then [\<lparr>req_name = domain cfg, req_ip = None, req_ttl = Some (or_int (ttl cfg) 300),
                   req_ipv6 = None, req_bearer = apiToken cfg\<rparr>]
            else [])"
    using assms
    by (simp add: sent_update update_try_def Let_def catch_null_def
          split: api_reply.splits api_body.splits)
  ultimately show ?thesis
    by (simp add: raised_update)
qed

theorem C10_null_address_dispatched_witness:
  "sent (update home_cfg 7 dark_world older_files) =
     [\<lparr>req_name = Some ''home.example.org'', req_ip = None, req_ttl = Some 300,
       req_ipv6 = None, req_bearer = Some ''token''\<rparr>]
   \<and> hd (printed (update home_cfg 7 dark_world older_files))
       = (7, IPChanged (Some (js ''198.51.100.7'')) None)"
proof -
  have ip: "getCurrentIP (providers dark_world)
              (Some (or_url (ipService home_cfg) ''https://api.ipify.org''))
            = Inl UnableToDetectIP"
    by (simp add: dark_world_def no_network_def getCurrentIP_eq try_primary_def
          fallbacks_def home_cfg_def or_url_def)
  from C10_null_address_dispatched[OF ip load_older, of 7]
  show ?thesis
    by (simp add: home_cfg_def or_int_def)
qed

section \<open>The schedule\<close>



end
